theory Spec2Isabelle
  imports Complex_Main
begin

section \<open>Numbers, vectors and the river configuration\<close>

text \<open>
  The program is JavaScript on top of the three.js scene library. Its numbers are
  IEEE doubles; they are modelled as \<^typ>\<open>real\<close>, that is, every arithmetic operation is
  taken to be exact. \<open>Math.sin\<close>, \<open>Math.cos\<close> and \<open>Math.sqrt\<close> are the real functions
  \<^const>\<open>sin\<close>, \<^const>\<open>cos\<close> and \<^const>\<open>sqrt\<close>.
\<close>

record vec3 =
  vx :: real
  vy :: real
  vz :: real

definition Vector3 :: "real \<Rightarrow> real \<Rightarrow> real \<Rightarrow> vec3" where
  "Vector3 x y z = \<lparr>vx = x, vy = y, vz = z\<rparr>"

text \<open>\<open>a.dot(b)\<close> of three.js.\<close>

definition dot :: "vec3 \<Rightarrow> vec3 \<Rightarrow> real" where
  "dot a b = vx a * vx b + vy a * vy b + vz a * vz b"

text \<open>\<open>a.addScaledVector(v, s)\<close> of three.js.\<close>

definition addScaledVector :: "vec3 \<Rightarrow> vec3 \<Rightarrow> real \<Rightarrow> vec3" where
  "addScaledVector a v s = \<lparr>vx = vx a + vx v * s, vy = vy a + vy v * s, vz = vz a + vz v * s\<rparr>"

text \<open>\<open>THREE.MathUtils.degToRad\<close>.\<close>

definition degToRad :: "real \<Rightarrow> real" where
  "degToRad degrees = degrees * (pi / 180)"

text \<open>
  The global \<open>riverParams\<close> object. It is mutable: the settings panel writes its
  fields at any time. The field \<open>length\<close> is named \<open>riverLength\<close> here.
\<close>

record riverParams =
  speed :: real
  waveHeight :: real
  flowAngle :: real
  foamAmount :: nat
  foamSize :: real
  waterHeight :: real
  waterX :: real
  waterZ :: real
  width :: real
  riverLength :: real
  waterfallDrop :: real

text \<open>An entry of the global \<open>rocks\<close> array (the mesh handle is left out).\<close>

record rock =
  rockX :: real
  rockZ :: real
  radius :: real


section \<open>The wave field\<close>

text \<open>
  \<open>getWaveHeight(x, z, time, dirX, dirY)\<close>. Besides its arguments it reads the
  global \<open>riverParams\<close>, which is therefore an argument of the model. The body writes
  to no global and calls only \<open>Math.sin\<close>; the model, a function, has that by its form.
\<close>

definition getWaveHeight :: "riverParams \<Rightarrow> real \<Rightarrow> real \<Rightarrow> real \<Rightarrow> real \<Rightarrow> real \<Rightarrow> real" where
  "getWaveHeight rp x z time dirX dirY =
     (let flowDist = (x * dirX) + (z * dirY);
          crossDist = (x * dirY) - (z * dirX);
          h = 0;
          h = h + sin (flowDist * 0.8 + time * speed rp) * 0.5;
          h = h + sin (flowDist * 1.5 + crossDist * 1.2 + time * speed rp * 1.2) * 0.3;
          h = h + sin (flowDist * 3.0 + time * speed rp * 2.0) * 0.1
      in h * waveHeight rp)"


section \<open>Water mesh, rock push and foam particles\<close>

text \<open>
  \<open>Math.random()\<close> is modelled by a stream \<open>random\<close> of numbers, the \<open>n\<close>-th call
  returning \<open>random n\<close>; the functions below take the number of calls made so far and
  return the new number. JavaScript promises that each value lies in \<open>[0, 1)\<close>.
\<close>

definition validRandom :: "(nat \<Rightarrow> real) \<Rightarrow> bool" where
  "validRandom random = (\<forall>n. 0 \<le> random n \<and> random n < 1)"

text \<open>
  The geometry attributes of the foam system: three \<open>Float32Array\<close>s, \<open>position\<close> with
  three entries per particle. A write beyond the end of a typed array is ignored, as
  \<open>xs[i := v]\<close> is.
\<close>

record foamSystem =
  positions :: "real list"
  lives :: "real list"
  offsets :: "real list"

text \<open>
  The river globals that \<open>createFoamSystem\<close> and \<open>updateWater\<close> read and write.
  \<open>water\<close> holds the vertices of the water plane (\<open>None\<close> while the variable is unset) and
  \<open>randomCalls\<close> counts the calls of \<open>Math.random()\<close>. The mist particles, the waterfalls,
  the shader uniforms and the \<open>needsUpdate\<close> flags are left out.
\<close>

record river =
  riverParams :: riverParams
  rocks :: "rock list"
  water :: "vec3 list option"
  foamSystem :: "foamSystem option"
  randomCalls :: nat

text \<open>
  The seeding of a particle's X and Z, shared by \<open>createFoamSystem\<close> and by the respawn
  of \<open>updateWater\<close>: 60 percent of the time around a random rock, otherwise along the
  left or right edge.
\<close>

definition seedPosition ::
  "(nat \<Rightarrow> real) \<Rightarrow> riverParams \<Rightarrow> rock list \<Rightarrow> nat \<Rightarrow> real list \<times> nat \<Rightarrow> real list \<times> nat" where
  "seedPosition random rp rs i = (\<lambda>(ps, n).
     (let currentLength = riverLength rp;
          edgeLimit = width rp * 0.5;
          lengthLimit = currentLength * 0.5
      in if random n < 0.6 \<and> length rs > 0 then
           (let rock = rs ! nat \<lfloor>random (n + 1) * real (length rs)\<rfloor>;
                r = radius rock + (random (n + 2) * 0.5);
                a = random (n + 3) * pi * 2
            in (ps[i * 3 := rockX rock + cos a * r, i * 3 + 2 := rockZ rock + sin a * r], n + 4))
         else
           (let side = (if random (n + 1) > 0.5 then 1 else - 1);
                edgeX = (edgeLimit - 0.2) * side;
                edgeZ = (random (n + 2) * currentLength) - lengthLimit
            in (ps[i * 3 := edgeX + (random (n + 3) * 0.5 * (- side)), i * 3 + 2 := edgeZ], n + 4))))"

text \<open>One iteration of the seeding loop of \<open>createFoamSystem\<close>.\<close>

definition createParticle ::
  "(nat \<Rightarrow> real) \<Rightarrow> riverParams \<Rightarrow> rock list \<Rightarrow> nat \<Rightarrow> foamSystem \<times> nat \<Rightarrow> foamSystem \<times> nat" where
  "createParticle random rp rs i = (\<lambda>(f, n).
     (let (ps, n) = seedPosition random rp rs i (positions f, n);
          ps = ps[i * 3 + 1 := 0.05]
      in (\<lparr>positions = ps,
           lives = (lives f)[i := random n],
           offsets = (offsets f)[i := random (n + 1) * 100]\<rparr>, n + 2)))"

text \<open>\<open>createFoamSystem()\<close>: the arrays have \<open>riverParams.foamAmount\<close> particles.\<close>

definition createFoamSystem :: "(nat \<Rightarrow> real) \<Rightarrow> river \<Rightarrow> river" where
  "createFoamSystem random g =
     (let count = foamAmount (riverParams g);
          empty = \<lparr>positions = replicate (count * 3) 0,
                   lives = replicate count 0,
                   offsets = replicate count 0\<rparr>;
          (f, n) = fold (createParticle random (riverParams g) (rocks g)) [0..<count]
                     (empty, randomCalls g)
      in g\<lparr>foamSystem := Some f, randomCalls := n\<rparr>)"

text \<open>
  The rock push of the water mesh in \<open>updateWater\<close>: the inner loop over \<open>rocks\<close>, which
  adds to the height \<open>h\<close> of the vertex at plane coordinates \<open>(x, y)\<close>.
\<close>

definition rockPush :: "rock list \<Rightarrow> real \<Rightarrow> real \<Rightarrow> real \<Rightarrow> real" where
  "rockPush rs x y h =
     fold (\<lambda>r h.
        (let dx = x - rockX r;
             dy = y - rockZ r;
             dist = sqrt (dx * dx + dy * dy)
         in if dist < radius r * 2.5
            then h + (1.0 - (dist / (radius r * 2.5))) * 0.6
            else h)) rs h"

text \<open>The height written to a vertex of the water mesh.\<close>

definition vertexHeight ::
  "riverParams \<Rightarrow> rock list \<Rightarrow> real \<Rightarrow> real \<Rightarrow> real \<Rightarrow> real \<Rightarrow> real \<Rightarrow> real" where
  "vertexHeight rp rs time dirX dirY x y = rockPush rs x y (getWaveHeight rp x y time dirX dirY)"

definition updateMesh ::
  "riverParams \<Rightarrow> rock list \<Rightarrow> real \<Rightarrow> real \<Rightarrow> real \<Rightarrow> vec3 list \<Rightarrow> vec3 list" where
  "updateMesh rp rs time dirX dirY vs =
     map (\<lambda>v. v\<lparr>vz := vertexHeight rp rs time dirX dirY (vx v) (vy v)\<rparr>) vs"

text \<open>The respawn branch of the foam loop, after the life has been reset.\<close>

definition respawn ::
  "(nat \<Rightarrow> real) \<Rightarrow> riverParams \<Rightarrow> rock list \<Rightarrow> vec3 option \<Rightarrow> nat \<Rightarrow>
   real list \<times> nat \<Rightarrow> real list \<times> nat" where
  "respawn random rp rs playerPos i = (\<lambda>(ps, n).
     (let edgeLimit = width rp * 0.5;
          lengthLimit = riverLength rp * 0.5;
          (spawnedOnPlayer, ps, n) =
            (case playerPos of
               None \<Rightarrow> (False, ps, n)
             | Some p \<Rightarrow>
                 (let pRelX = vx p - waterX rp;
                      pRelZ = vz p - waterZ rp
                  in if \<bar>pRelX\<bar> < edgeLimit \<and> \<bar>pRelZ\<bar> < lengthLimit then
                       if \<bar>vy p - waterHeight rp\<bar> < 2.5 then
                         if random n < 0.08 then
                           (let r = 0.3 + random (n + 1) * 0.5;
                                a = random (n + 2) * pi * 2
                            in (True, ps[i * 3 := pRelX + cos a * r,
                                         i * 3 + 2 := pRelZ + sin a * r], n + 3))
                         else (False, ps, n + 1)
                       else (False, ps, n)
                     else (False, ps, n)))
      in if \<not> spawnedOnPlayer then seedPosition random rp rs i (ps, n) else (ps, n)))"

text \<open>One iteration of the foam loop of \<open>updateWater\<close>, for particle \<open>i\<close>.\<close>

definition foamStep ::
  "(nat \<Rightarrow> real) \<Rightarrow> riverParams \<Rightarrow> rock list \<Rightarrow> vec3 option \<Rightarrow> real \<Rightarrow> real \<Rightarrow> real \<Rightarrow>
   nat \<Rightarrow> foamSystem \<times> nat \<Rightarrow> foamSystem \<times> nat" where
  "foamStep random rp rs playerPos time dirX dirY i = (\<lambda>(f, n).
     (let ls = (lives f)[i := lives f ! i - 0.01 * speed rp];
          (ls, ps, n) =
            (if ls ! i \<le> 0 then
               (let ls = ls[i := 1.0];
                    (ps, n) = respawn random rp rs playerPos i (positions f, n)
                in (ls, ps, n))
             else
               (let ps = positions f;
                    ps = ps[i * 3 := ps ! (i * 3) + dirX * 0.08 * speed rp];
                    ps = ps[i * 3 + 2 := ps ! (i * 3 + 2) + dirY * 0.08 * speed rp];
                    noise = sin (time * 5 + offsets f ! i) * 0.02;
                    ps = ps[i * 3 := ps ! (i * 3) + (- dirY) * noise];
                    ps = ps[i * 3 + 2 := ps ! (i * 3 + 2) + dirX * noise]
                in (ls, ps, n)));
          waterH = getWaveHeight rp (ps ! (i * 3)) (ps ! (i * 3 + 2)) time dirX dirY;
          ps = ps[i * 3 + 1 := waterH + 0.05]
      in (f\<lparr>positions := ps, lives := ls\<rparr>, n)))"

definition updateFoam ::
  "(nat \<Rightarrow> real) \<Rightarrow> riverParams \<Rightarrow> rock list \<Rightarrow> vec3 option \<Rightarrow> real \<Rightarrow> real \<Rightarrow> real \<Rightarrow>
   foamSystem \<times> nat \<Rightarrow> foamSystem \<times> nat" where
  "updateFoam random rp rs playerPos time dirX dirY =
     fold (foamStep random rp rs playerPos time dirX dirY) [0..<foamAmount rp]"

text \<open>
  \<open>updateWater(time)\<close>: the water mesh, then the foam. The argument \<open>playerPos\<close> is
  \<open>player.position\<close>, or \<open>None\<close> while the global \<open>player\<close> is unset.
\<close>

definition updateWater :: "(nat \<Rightarrow> real) \<Rightarrow> real \<Rightarrow> vec3 option \<Rightarrow> river \<Rightarrow> river" where
  "updateWater random time playerPos g =
     (let rp = riverParams g;
          rad = degToRad (flowAngle rp);
          dirX = sin rad;
          dirY = cos rad;
          g = (case water g of
                 None \<Rightarrow> g
               | Some vs \<Rightarrow> g\<lparr>water := Some (updateMesh rp (rocks g) time dirX dirY vs)\<rparr>)
      in case foamSystem g of
           None \<Rightarrow> g
         | Some f \<Rightarrow>
             (let (f, n) = updateFoam random rp (rocks g) playerPos time dirX dirY
                             (f, randomCalls g)
              in g\<lparr>foamSystem := Some f, randomCalls := n\<rparr>))"



section \<open>The character controller\<close>

text \<open>
  The file \<open>src/src/main.js\<close> holds two revisions of the program, one after the other. Both
  are modelled; a parameter of type \<open>revision\<close> selects the text that is followed where
  they differ. \<open>First\<close> is the revision with jump force 8 and step height 0.5, \<open>Second\<close>
  the one with jump force 10, step height 0.6, the ceiling probe, the river current and
  the touch controls.
\<close>

datatype revision = First | Second

text \<open>
  The three.js library is not part of the repository. Vectors are modelled above;
  quaternions are kept abstract (a type parameter \<open>'q\<close>), and the operations on them
  that the controller calls are parameters, collected in a record, together with
  \<open>Math.atan2\<close>: \<open>setFromEuler yaw\<close> is the quaternion of \<open>Euler(0, yaw, 0)\<close>,
  \<open>slerp q target t\<close> is \<open>q.slerp(target, t)\<close> and \<open>applyQuaternion v q\<close> is
  \<open>v.applyQuaternion(q)\<close>.
\<close>

record 'q three =
  atan2 :: "real \<Rightarrow> real \<Rightarrow> real"
  setFromEuler :: "real \<Rightarrow> 'q"
  slerp :: "'q \<Rightarrow> 'q \<Rightarrow> real \<Rightarrow> 'q"
  applyQuaternion :: "vec3 \<Rightarrow> 'q \<Rightarrow> vec3"

text \<open>
  The first entry of \<open>raycaster.intersectObject(terrain, true)\<close>, or \<open>None\<close> when the
  array is empty. The terrain mesh is the function from the ray (origin, direction) to
  this nearest intersection.
\<close>

record hit =
  distance :: real
  point :: vec3

type_synonym terrain = "vec3 \<Rightarrow> vec3 \<Rightarrow> hit option"

record 'q player =
  position :: vec3
  quaternion :: 'q

datatype actionName = Idle | Walk | Run | StrafeLeft | StrafeRight | Jump

text \<open>
  The globals of the controller. \<open>actions n\<close> tells whether the clip \<open>n\<close> has been
  loaded (\<open>actions[n]\<close> is not \<open>null\<close>); \<open>activeAction\<close> is \<open>None\<close> for \<open>null\<close>.
  \<open>probes\<close> records, in order, every ray that was cast against the terrain. Sounds,
  animation fades and time scales are left out.
\<close>

record 'q world =
  player :: "'q player option"
  terrain :: "terrain option"
  actions :: "actionName \<Rightarrow> bool"
  activeAction :: "actionName option"
  verticalVelocity :: real
  isGrounded :: bool
  lastGroundHeight :: real
  cameraPosition :: vec3
  dirLightPosition :: vec3
  dirLightTarget :: vec3
  river :: river
  probes :: "(vec3 \<times> vec3) list"

text \<open>
  What a frame reads from the outside: the key flags, the joystick, the pointer lock,
  the clock (\<open>delta\<close> is \<open>clock.getDelta()\<close>, \<open>now\<close> is \<open>performance.now() * 0.001\<close>),
  the camera's world direction and the sun direction.
\<close>

record keys =
  keyW :: bool
  keyA :: bool
  keyS :: bool
  keyD :: bool
  keyShift :: bool
  keySpace :: bool

record input =
  keys :: keys
  joystickX :: real
  joystickY :: real
  isLocked :: bool
  gameActive :: bool
  isMobile :: bool
  delta :: real
  now :: real
  cameraDirection :: vec3
  sun :: vec3

text \<open>
  The only exception the controller can raise: \<open>activeAction.fadeOut(0.1)\<close> in the jump
  block when \<open>activeAction\<close> is \<open>null\<close>. A frame that raises leaves the globals as they
  were at that point; the model returns them with the error.
\<close>

datatype error = TypeError

type_synonym 'q frame = "'q player \<times> 'q world"

definition rayStartHeight :: "revision \<Rightarrow> real" where
  "rayStartHeight rv = (case rv of First \<Rightarrow> 0.8 | Second \<Rightarrow> 0.6)"

definition jumpForce :: "revision \<Rightarrow> real" where
  "jumpForce rv = (case rv of First \<Rightarrow> 8.0 | Second \<Rightarrow> 10.0)"

definition maxStepHeight :: "revision \<Rightarrow> real" where
  "maxStepHeight rv = (case rv of First \<Rightarrow> 0.5 | Second \<Rightarrow> 0.6)"

definition downVector :: vec3 where
  "downVector = Vector3 0 (- 1) 0"

definition lengthOf :: "vec3 \<Rightarrow> real" where
  "lengthOf v = sqrt (vx v * vx v + vy v * vy v + vz v * vz v)"

definition multiplyScalar :: "vec3 \<Rightarrow> real \<Rightarrow> vec3" where
  "multiplyScalar v s = \<lparr>vx = vx v * s, vy = vy v * s, vz = vz v * s\<rparr>"

text \<open>\<open>v.normalize()\<close>, which is \<open>v.divideScalar(v.length() || 1)\<close>.\<close>

definition normalize :: "vec3 \<Rightarrow> vec3" where
  "normalize v = multiplyScalar v (1 / (if lengthOf v = 0 then 1 else lengthOf v))"

definition addY :: "vec3 \<Rightarrow> real \<Rightarrow> vec3" where
  "addY v h = v\<lparr>vy := vy v + h\<rparr>"

text \<open>\<open>raycaster.set(origin, direction)\<close> followed by \<open>raycaster.intersectObject\<close>.\<close>

definition intersectObject ::
  "terrain \<Rightarrow> vec3 \<Rightarrow> vec3 \<Rightarrow> 'q world \<Rightarrow> hit option \<times> 'q world" where
  "intersectObject t origin direction w =
     (t origin direction, w\<lparr>probes := probes w @ [(origin, direction)]\<rparr>)"

definition controlsActive :: "revision \<Rightarrow> input \<Rightarrow> bool" where
  "controlsActive rv i =
     (case rv of First \<Rightarrow> isLocked i
      | Second \<Rightarrow> isLocked i \<or> (gameActive i \<and> isMobile i))"

definition isMoving :: "revision \<Rightarrow> input \<Rightarrow> bool" where
  "isMoving rv i =
     (case rv of
        First \<Rightarrow> keyW (keys i) \<or> keyA (keys i) \<or> keyS (keys i) \<or> keyD (keys i)
      | Second \<Rightarrow> keyW (keys i) \<or> keyA (keys i) \<or> keyS (keys i) \<or> keyD (keys i)
          \<or> \<bar>joystickX i\<bar> > 0.1 \<or> \<bar>joystickY i\<bar> > 0.1)"

definition isRunning :: "revision \<Rightarrow> input \<Rightarrow> bool" where
  "isRunning rv i = (keyShift (keys i) \<and> isMoving rv i)"

definition inputAngle :: "'q three \<Rightarrow> revision \<Rightarrow> input \<Rightarrow> real" where
  "inputAngle eng rv i =
     (if isMoving rv i then
        (let z = of_bool (keyW (keys i)) - of_bool (keyS (keys i));
             z = (case rv of First \<Rightarrow> z | Second \<Rightarrow> z - joystickY i);
             x = of_bool (keyA (keys i)) - of_bool (keyD (keys i));
             x = (case rv of First \<Rightarrow> x | Second \<Rightarrow> x - joystickX i)
         in atan2 eng x z)
      else 0)"

definition camAngle :: "'q three \<Rightarrow> input \<Rightarrow> real" where
  "camAngle eng i =
     (let cameraForward = normalize ((cameraDirection i)\<lparr>vy := 0\<rparr>)
      in if lengthOf cameraForward > 0 then atan2 eng (vx cameraForward) (vz cameraForward)
         else 0)"

text \<open>Turning the player toward camera angle plus input angle.\<close>

definition applyRotation :: "'q three \<Rightarrow> revision \<Rightarrow> input \<Rightarrow> 'q player \<Rightarrow> 'q player" where
  "applyRotation eng rv i p =
     (let targetRotation = camAngle eng i + inputAngle eng rv i;
          targetQuaternion = setFromEuler eng targetRotation
      in if quaternion p \<noteq> targetQuaternion
         then p\<lparr>quaternion := slerp eng (quaternion p) targetQuaternion (10.0 * delta i)\<rparr>
         else p)"

text \<open>The jump block (\<open>// Jump Input\<close>).\<close>

definition jumpInput :: "revision \<Rightarrow> input \<Rightarrow> 'q world \<Rightarrow> error \<times> 'q world + 'q world" where
  "jumpInput rv i w =
     (if keySpace (keys i) \<and> isGrounded w then
        (let w = w\<lparr>verticalVelocity := jumpForce rv, isGrounded := False\<rparr>
         in if actions w Jump then
              (case activeAction w of
                 None \<Rightarrow> Inl (TypeError, w)
               | Some a \<Rightarrow> Inr (w\<lparr>activeAction := Some Jump\<rparr>))
            else Inr w)
      else Inr w)"

text \<open>The gravity lines (\<open>// Gravity\<close>).\<close>

definition gravity :: "real \<Rightarrow> 'q frame \<Rightarrow> 'q frame" where
  "gravity dt = (\<lambda>(p, w).
     (let w = w\<lparr>verticalVelocity := verticalVelocity w - 20.0 * dt\<rparr>
      in (p\<lparr>position := addY (position p) (verticalVelocity w * dt)\<rparr>, w)))"

definition baseSpeed :: "revision \<Rightarrow> input \<Rightarrow> real" where
  "baseSpeed rv i =
     (if isMoving rv i then (if isRunning rv i then 10.0 else 4.0) else 0)"

text \<open>\<open>actions[n]\<close> as a reference: \<open>None\<close> is \<open>null\<close>.\<close>

definition actionOf :: "'q world \<Rightarrow> actionName \<Rightarrow> actionName option" where
  "actionOf w n = (if actions w n then Some n else None)"

definition targetActionName :: "revision \<Rightarrow> input \<Rightarrow> 'q world \<Rightarrow> actionName" where
  "targetActionName rv i w =
     (let name = (if isMoving rv i then (if isRunning rv i then Run else Walk) else Idle)
      in if \<not> isGrounded w \<and> activeAction w = actionOf w Jump then Jump else name)"

text \<open>
  The river current (\<open>// --- RIVER PHYSICS: Flow Speed Modification ---\<close>), present in
  the second revision only: the new value of \<open>moveSpeed\<close>.
\<close>

definition flowSpeed :: "river \<Rightarrow> vec3 \<Rightarrow> vec3 \<Rightarrow> real \<Rightarrow> real" where
  "flowSpeed g pos worldMoveDir moveSpeed =
     (case water g of
        None \<Rightarrow> moveSpeed
      | Some vs \<Rightarrow>
          (let rp = riverParams g;
               halfWidth = width rp / 2;
               halfLength = riverLength rp / 2;
               pRelX = vx pos - waterX rp;
               pRelZ = vz pos - waterZ rp
           in if \<bar>pRelX\<bar> < halfWidth \<and> \<bar>pRelZ\<bar> < halfLength then
                if vy pos < waterHeight rp + 0.5 then
                  (let rad = degToRad (flowAngle rp);
                       flowDir = Vector3 (sin rad) 0 (cos rad);
                       alignment = dot worldMoveDir flowDir;
                       flowEffect = 0.5
                   in moveSpeed * (1.0 + (alignment * flowEffect)))
                else moveSpeed
              else moveSpeed))"

text \<open>
  The frontal wall rays: cast from each origin in turn until one hits nearer than
  \<open>checkDist\<close>.
\<close>

fun wallCheck :: "terrain \<Rightarrow> vec3 \<Rightarrow> real \<Rightarrow> vec3 list \<Rightarrow> 'q world \<Rightarrow> bool \<times> 'q world" where
  "wallCheck t dir checkDist [] w = (False, w)"
| "wallCheck t dir checkDist (origin # origins) w =
     (let (h, w) = intersectObject t origin dir w
      in case h of
           None \<Rightarrow> wallCheck t dir checkDist origins w
         | Some x \<Rightarrow> if distance x < checkDist then (True, w)
                     else wallCheck t dir checkDist origins w)"

definition wallOrigins :: "'q three \<Rightarrow> revision \<Rightarrow> 'q player \<Rightarrow> vec3 list" where
  "wallOrigins eng rv p =
     (case rv of
        First \<Rightarrow>
          (let pPos = addY (position p) 0.8;
               localRight = applyQuaternion eng (Vector3 1 0 0) (quaternion p);
               widthRadius = 0.4
           in [pPos, addScaledVector pPos localRight widthRadius,
               addScaledVector pPos localRight (- widthRadius)])
      | Second \<Rightarrow> [addY (position p) 0.5, addY (position p) 1, addY (position p) 1.7])"

definition checkDist :: "revision \<Rightarrow> real" where
  "checkDist rv = (case rv of First \<Rightarrow> 1.1 | Second \<Rightarrow> 0.8)"

text \<open>The movement block (\<open>// Apply Movement Physics\<close>).\<close>

definition applyMovement ::
  "'q three \<Rightarrow> revision \<Rightarrow> input \<Rightarrow> terrain \<Rightarrow> 'q frame \<Rightarrow> 'q frame" where
  "applyMovement eng rv i t = (\<lambda>(p, w).
     if isMoving rv i then
       (let worldMoveDir = applyQuaternion eng (Vector3 0 0 1) (quaternion p);
            moveSpeed = (case rv of
                           First \<Rightarrow> baseSpeed rv i
                         | Second \<Rightarrow> flowSpeed (river w) (position p) worldMoveDir (baseSpeed rv i));
            (blocked, w) = wallCheck t worldMoveDir (checkDist rv) (wallOrigins eng rv p) w
        in if \<not> blocked
           then (p\<lparr>position := addScaledVector (position p) worldMoveDir (moveSpeed * delta i)\<rparr>, w)
           else (p, w))
     else (p, w))"

text \<open>The animation switch (\<open>// Handle Animation Crossfade\<close>).\<close>

definition crossfade :: "actionName \<Rightarrow> 'q world \<Rightarrow> 'q world" where
  "crossfade name w =
     (if name \<noteq> Jump \<and> actions w Jump \<and> activeAction w = actionOf w Jump \<and> \<not> isGrounded w
      then w
      else (let targetAction = actionOf w name
            in if targetAction \<noteq> None \<and> activeAction w \<noteq> targetAction
               then w\<lparr>activeAction := targetAction\<rparr>
               else w))"

text \<open>The camera follows the player (\<open>// Move Camera Pivot Position\<close>).\<close>

definition followCamera :: "input \<Rightarrow> 'q frame \<Rightarrow> 'q frame" where
  "followCamera i = (\<lambda>(p, w).
     (let camDist = 3.5;
          camHeight = 1.5;
          camDir = multiplyScalar (cameraDirection i) (- camDist);
          c = position p;
          c = addScaledVector c camDir 1;
          c = addY c camHeight;
          camMinBelowGround = 0.3;
          minCamY = vy (position p) - camMinBelowGround;
          c = (if vy c < minCamY then c\<lparr>vy := minCamY\<rparr> else c)
      in (p, w\<lparr>cameraPosition := c\<rparr>)))"

text \<open>
  The block \<open>// 2. Control Application\<close>, run when the controls are active: rotation,
  jump, gravity, movement, animation, camera.
\<close>

definition controlApplication ::
  "'q three \<Rightarrow> revision \<Rightarrow> input \<Rightarrow> terrain \<Rightarrow> 'q frame \<Rightarrow> error \<times> 'q frame + 'q frame" where
  "controlApplication eng rv i t = (\<lambda>(p, w).
     (let p = applyRotation eng rv i p
      in case jumpInput rv i w of
           Inl (e, w) \<Rightarrow> Inl (e, (p, w))
         | Inr w \<Rightarrow>
             (let (p, w) = gravity (delta i) (p, w);
                  name = targetActionName rv i w;
                  (p, w) = applyMovement eng rv i t (p, w);
                  w = crossfade name w
              in Inr (followCamera i (p, w)))))"

text \<open>The ceiling probe (\<open>// CEILING CHECK\<close>), present in the second revision only.\<close>

definition ceilingCheck :: "terrain \<Rightarrow> 'q frame \<Rightarrow> 'q frame" where
  "ceilingCheck t = (\<lambda>(p, w).
     (let upVector = Vector3 0 1 0;
          ceilingRayOrigin = addY (position p) 0.2;
          (ceilingIntersects, w) = intersectObject t ceilingRayOrigin upVector w
      in case ceilingIntersects of
           None \<Rightarrow> (p, w)
         | Some c \<Rightarrow>
             if distance c < 1.8 then
               (let ceilingHeight = vy (point c);
                    maxPlayerY = ceilingHeight - 1.9
                in if vy (position p) > maxPlayerY then
                     (p\<lparr>position := (position p)\<lparr>vy := maxPlayerY\<rparr>\<rparr>,
                      if verticalVelocity w > 0 then w\<lparr>verticalVelocity := 0\<rparr> else w)
                   else (p, w))
             else (p, w)))"

text \<open>The condition of the \<open>// X/Z Revert Logic\<close>.\<close>

definition shouldRevert :: "revision \<Rightarrow> real \<Rightarrow> real \<Rightarrow> 'q frame \<Rightarrow> bool" where
  "shouldRevert rv heightDiff newGroundHeight = (\<lambda>(p, w).
     (let isJumping = verticalVelocity w > 0;
          isClearingObstacle = vy (position p) > newGroundHeight;
          isInAir = \<not> isGrounded w
      in case rv of
           First \<Rightarrow> heightDiff > 0.5 \<and> \<not> isClearingObstacle
         | Second \<Rightarrow> heightDiff > maxStepHeight Second \<and> \<not> isClearingObstacle
                       \<and> \<not> isJumping \<and> \<not> isInAir))"

text \<open>The revert branch: X and Z go back, and the ground is probed again there.\<close>

definition revertMove :: "revision \<Rightarrow> terrain \<Rightarrow> vec3 \<Rightarrow> 'q frame \<Rightarrow> 'q frame" where
  "revertMove rv t oldPosition = (\<lambda>(p, w).
     (let p = p\<lparr>position := (position p)\<lparr>vx := vx oldPosition, vz := vz oldPosition\<rparr>\<rparr>;
          origin = (case rv of
                      First \<Rightarrow> Vector3 (vx (position p)) (vy oldPosition + 0.8) (vz (position p))
                    | Second \<Rightarrow> Vector3 (vx (position p)) 200 (vz (position p)));
          (wallIntersects, w) = intersectObject t origin downVector w
      in case wallIntersects of
           None \<Rightarrow> (p, w)
         | Some h \<Rightarrow>
             (let validGround = vy (point h)
              in if vy (position p) \<le> validGround + 0.1 \<and> verticalVelocity w \<le> 0
                 then (p\<lparr>position := (position p)\<lparr>vy := validGround + 0.1\<rparr>\<rparr>,
                       w\<lparr>verticalVelocity := 0, isGrounded := True\<rparr>)
                 else (p, w\<lparr>isGrounded := False\<rparr>))))"

text \<open>The other branch (\<open>// No wall collision. Valid ground logic.\<close>).\<close>

definition validGroundLogic :: "real \<Rightarrow> 'q frame \<Rightarrow> 'q frame" where
  "validGroundLogic newGroundHeight = (\<lambda>(p, w).
     if vy (position p) \<le> newGroundHeight + 0.1 then
       if verticalVelocity w \<le> 0
       then (p\<lparr>position := (position p)\<lparr>vy := newGroundHeight + 0.1\<rparr>\<rparr>,
             w\<lparr>verticalVelocity := 0, isGrounded := True\<rparr>)
       else (p, w)
     else (p, w\<lparr>isGrounded := False\<rparr>))"

definition emergencyEscape :: "real \<Rightarrow> 'q frame \<Rightarrow> 'q frame" where
  "emergencyEscape newGroundHeight = (\<lambda>(p, w).
     if vy (position p) < - 10
     then (p\<lparr>position := (position p)\<lparr>vy := newGroundHeight + 0.1\<rparr>\<rparr>,
           w\<lparr>verticalVelocity := 0, isGrounded := True\<rparr>)
     else (p, w))"

text \<open>
  The post-move ground resolution: everything under \<open>if (intersects.length > 0)\<close>,
  where \<open>intersects\<close> is the downward probe from the new position.
\<close>

definition groundResolution ::
  "revision \<Rightarrow> terrain \<Rightarrow> vec3 \<Rightarrow> real \<Rightarrow> hit option \<Rightarrow> 'q frame \<Rightarrow> 'q frame" where
  "groundResolution rv t oldPosition oldGroundHeight intersects = (\<lambda>(p, w).
     case intersects of
       None \<Rightarrow> (p, w)
     | Some h \<Rightarrow>
         (let newGroundHeight = vy (point h);
              w = w\<lparr>lastGroundHeight := newGroundHeight\<rparr>;
              heightDiff = newGroundHeight - oldGroundHeight;
              (p, w) = (if shouldRevert rv heightDiff newGroundHeight (p, w)
                        then revertMove rv t oldPosition (p, w)
                        else validGroundLogic newGroundHeight (p, w))
          in emergencyEscape newGroundHeight (p, w)))"

definition clampCamera :: "'q world \<Rightarrow> 'q world" where
  "clampCamera w =
     (let camMinBelowGround = 0.3;
          minCamY = lastGroundHeight w - camMinBelowGround
      in if vy (cameraPosition w) < minCamY
         then w\<lparr>cameraPosition := (cameraPosition w)\<lparr>vy := minCamY\<rparr>\<rparr>
         else w)"

text \<open>
  After the control block: the downward probe from the new position and, in the second
  revision, the ceiling probe. The result is the frame state and \<open>intersects\<close>.
\<close>

definition postMoveProbes :: "revision \<Rightarrow> terrain \<Rightarrow> 'q frame \<Rightarrow> 'q frame \<times> hit option" where
  "postMoveProbes rv t = (\<lambda>(p, w).
     (let rayOrigin = addY (position p) (rayStartHeight rv);
          (intersects, w) = intersectObject t rayOrigin downVector w;
          (p, w) = (case rv of First \<Rightarrow> (p, w) | Second \<Rightarrow> ceilingCheck t (p, w))
      in ((p, w), intersects)))"

text \<open>
  The frame up to the ground resolution: the light, the probe under the old position,
  the control block and the probes after the move. The result carries what the
  resolution needs: the frame state, \<open>intersects\<close>, \<open>oldPosition\<close> and \<open>oldGroundHeight\<close>.
\<close>

definition beforeResolution ::
  "'q three \<Rightarrow> revision \<Rightarrow> input \<Rightarrow> terrain \<Rightarrow> 'q frame \<Rightarrow>
   error \<times> 'q frame + 'q frame \<times> hit option \<times> vec3 \<times> real" where
  "beforeResolution eng rv i t = (\<lambda>(p, w).
     (let w = w\<lparr>dirLightPosition := addScaledVector (position p) (sun i) 20,
                dirLightTarget := position p\<rparr>;
          oldPosition = position p;
          (intersects, w) = intersectObject t (addY (position p) (rayStartHeight rv)) downVector w;
          oldGroundHeight = (case intersects of None \<Rightarrow> vy (position p) | Some h \<Rightarrow> vy (point h));
          r = (if controlsActive rv i then controlApplication eng rv i t (p, w) else Inr (p, w))
      in case r of
           Inl e \<Rightarrow> Inl e
         | Inr f \<Rightarrow>
             (let (f, intersects) = postMoveProbes rv t f
              in Inr (f, intersects, oldPosition, oldGroundHeight))))"

text \<open>The block \<open>if (player && terrain) { ... }\<close> of \<open>animate\<close>.\<close>

definition locomotion :: "'q three \<Rightarrow> revision \<Rightarrow> input \<Rightarrow> 'q world \<Rightarrow> error \<times> 'q world + 'q world" where
  "locomotion eng rv i w =
     (case (player w, terrain w) of
        (Some p, Some t) \<Rightarrow>
          (case beforeResolution eng rv i t (p, w) of
             Inl (e, (p, w)) \<Rightarrow> Inl (e, w\<lparr>player := Some p\<rparr>)
           | Inr ((p, w), intersects, oldPosition, oldGroundHeight) \<Rightarrow>
               (let (p, w) = groundResolution rv t oldPosition oldGroundHeight intersects (p, w)
                in Inr (clampCamera (w\<lparr>player := Some p\<rparr>))))
      | _ \<Rightarrow> Inr w)"

text \<open>
  \<open>animate()\<close>: the water update, then the controller. The sound triggers, the
  animation mixers and the rendering are left out.
\<close>

definition animate ::
  "(nat \<Rightarrow> real) \<Rightarrow> 'q three \<Rightarrow> revision \<Rightarrow> input \<Rightarrow> 'q world \<Rightarrow> error \<times> 'q world + 'q world" where
  "animate random eng rv i w =
     (let w = w\<lparr>river := updateWater random (now i) (map_option position (player w)) (river w)\<rparr>
      in locomotion eng rv i w)"


section \<open>Auxiliary notions\<close>

text \<open>
  The life of a foam particle after one pass of the foam loop, as the loop computes it:
  decremented, and reset to 1 when the decremented value is not positive.
\<close>

definition decay :: "riverParams \<Rightarrow> real \<Rightarrow> real" where
  "decay rp l = (if l - 0.01 * speed rp \<le> 0 then 1.0 else l - 0.01 * speed rp)"

text \<open>The contribution of one rock to the height of the mesh vertex at \<open>(x, y)\<close>.\<close>

definition rockBump :: "rock \<Rightarrow> real \<Rightarrow> real \<Rightarrow> real" where
  "rockBump r x y =
     (let dist = sqrt ((x - rockX r) * (x - rockX r) + (y - rockZ r) * (y - rockZ r))
      in if dist < radius r * 2.5 then (1 - dist / (radius r * 2.5)) * 0.6 else 0)"

text \<open>
  The river globals that can arise once the foam system exists: \<open>createFoamSystem\<close> has
  run (at start-up, or again through \<open>updateFoamCount\<close> when the settings panel changes
  \<open>foamAmount\<close>); the settings panel, the rock markers, the mist and other callers of
  \<open>Math.random()\<close> change the other globals; \<open>updateWater\<close> runs once a frame, with a
  flow speed that is not negative (the panel offers \<open>0\<close> to \<open>5\<close>).
\<close>

inductive foamRun :: "(nat \<Rightarrow> real) \<Rightarrow> river \<Rightarrow> bool" for random :: "nat \<Rightarrow> real" where
  created: "foamRun random (createFoamSystem random g)"
| configured: "foamRun random g \<Longrightarrow> foamAmount rp = foamAmount (riverParams g) \<Longrightarrow>
     foamRun random (g\<lparr>riverParams := rp, rocks := rs, water := w, randomCalls := m\<rparr>)"
| updated: "foamRun random g \<Longrightarrow> 0 \<le> speed (riverParams g) \<Longrightarrow>
     foamRun random (updateWater random time playerPos g)"

definition livesWithin :: "river \<Rightarrow> bool" where
  "livesWithin g = (case foamSystem g of None \<Rightarrow> False
     | Some f \<Rightarrow> length (lives f) = foamAmount (riverParams g)
         \<and> length (positions f) = foamAmount (riverParams g) * 3
         \<and> (\<forall>l\<in>set (lives f). 0 \<le> l \<and> l \<le> 1))"

text \<open>
  Where the foam loop puts a respawned particle, in water-relative X and Z: on a ring
  of radius \<open>0.3\<close> to \<open>0.8\<close> around the player when the player is within the water's
  footprint and within \<open>2.5\<close> of its height; or on a ring around one of the rocks, from
  the rock's radius to \<open>0.5\<close> beyond it; or along the left or right edge, up to
  \<open>0.5\<close> inside the line \<open>0.2\<close> within the half width, anywhere along the length.
\<close>

definition freshPosition :: "riverParams \<Rightarrow> rock list \<Rightarrow> vec3 option \<Rightarrow> real \<Rightarrow> real \<Rightarrow> bool" where
  "freshPosition rp rs playerPos x z =
     ((\<exists>p r a. playerPos = Some p
          \<and> \<bar>vx p - waterX rp\<bar> < width rp * 0.5 \<and> \<bar>vz p - waterZ rp\<bar> < riverLength rp * 0.5
          \<and> \<bar>vy p - waterHeight rp\<bar> < 2.5
          \<and> 0.3 \<le> r \<and> r < 0.8 \<and> 0 \<le> a \<and> a < 2 * pi
          \<and> x = (vx p - waterX rp) + cos a * r \<and> z = (vz p - waterZ rp) + sin a * r)
      \<or> (\<exists>rock r a. rock \<in> set rs \<and> radius rock \<le> r \<and> r < radius rock + 0.5
          \<and> 0 \<le> a \<and> a < 2 * pi
          \<and> x = rockX rock + cos a * r \<and> z = rockZ rock + sin a * r)
      \<or> (\<exists>side u v. (side = 1 \<or> side = - 1) \<and> 0 \<le> u \<and> u < 1 \<and> 0 \<le> v \<and> v < 1
          \<and> x = (width rp * 0.5 - 0.2) * side + u * 0.5 * (- side)
          \<and> z = v * riverLength rp - riverLength rp * 0.5))"

text \<open>Vertical velocity and height of a frame state.\<close>

definition velocityOf :: "'q frame \<Rightarrow> real" where
  "velocityOf = (\<lambda>(p, w). verticalVelocity w)"

definition heightOf :: "'q frame \<Rightarrow> real" where
  "heightOf = (\<lambda>(p, w). vy (position p))"

text \<open>The globals a frame leaves behind, whether it completed or raised.\<close>

definition globalsAfter :: "error \<times> 'q world + 'q world \<Rightarrow> 'q world" where
  "globalsAfter r = (case r of Inl (e, w) \<Rightarrow> w | Inr w \<Rightarrow> w)"

text \<open>The origin of the second ground probe of the revert branch.\<close>

definition reprobeOrigin :: "revision \<Rightarrow> vec3 \<Rightarrow> vec3" where
  "reprobeOrigin rv oldPosition =
     Vector3 (vx oldPosition) (case rv of First \<Rightarrow> vy oldPosition + 0.8 | Second \<Rightarrow> 200)
       (vz oldPosition)"

text \<open>
  Two properties of the surroundings: a terrain whose downward hits lie at or below the
  origin of the ray, and an engine whose forward direction, \<open>(0, 0, 1)\<close> turned by the
  player's quaternion, has no vertical part (the quaternion is a rotation about the Y
  axis).
\<close>

definition hitsBelow :: "terrain \<Rightarrow> bool" where
  "hitsBelow t = (\<forall>origin h. t origin downVector = Some h \<longrightarrow> vy (point h) \<le> vy origin)"

definition horizontalMoves :: "'q three \<Rightarrow> bool" where
  "horizontalMoves eng = (\<forall>q. vy (applyQuaternion eng (Vector3 0 0 1) q) = 0)"

text \<open>
  While the grounded flag is set the player is not moving upward. The flag and the
  velocity are written by the controller only.
\<close>

definition groundedAtRest :: "'q world \<Rightarrow> bool" where
  "groundedAtRest w = (isGrounded w \<longrightarrow> verticalVelocity w \<le> 0)"

text \<open>
  The globals that can arise between frames. At start-up \<open>verticalVelocity\<close> is \<open>0\<close>,
  \<open>isGrounded\<close> is \<open>true\<close> and \<open>lastGroundHeight\<close> is \<open>0\<close>. Loaders, input handlers,
  the settings panel and \<open>updateWater\<close> change any global but these three. A frame runs
  the controller with a frame time that is not negative (\<open>clock.getDelta()\<close>).
\<close>

inductive reachable :: "'q three \<Rightarrow> revision \<Rightarrow> 'q world \<Rightarrow> bool"
  for eng :: "'q three" and rv :: revision where
  start: "verticalVelocity w = 0 \<Longrightarrow> isGrounded w \<Longrightarrow> lastGroundHeight w = 0 \<Longrightarrow>
     reachable eng rv w"
| event: "reachable eng rv w \<Longrightarrow> verticalVelocity w' = verticalVelocity w \<Longrightarrow>
     isGrounded w' = isGrounded w \<Longrightarrow> lastGroundHeight w' = lastGroundHeight w \<Longrightarrow>
     reachable eng rv w'"
| frame: "reachable eng rv w \<Longrightarrow> 0 \<le> delta i \<Longrightarrow>
     reachable eng rv (globalsAfter (locomotion eng rv i w))"


section \<open>Example scenes\<close>

text \<open>
  Example data for the river: random sources that always return \<open>0.5\<close> and \<open>0\<close>, the
  initial value of \<open>riverParams\<close>, and a river with one foam particle and one rock.
\<close>

definition halves :: "nat \<Rightarrow> real" where
  "halves n = 0.5"

definition zeros :: "nat \<Rightarrow> real" where
  "zeros n = 0"

definition riverParams0 :: riverParams where
  "riverParams0 = \<lparr>speed = 0.7, waveHeight = 0.33, flowAngle = 0, foamAmount = 9000,
     foamSize = 0.3, waterHeight = 30.5, waterX = 2, waterZ = - 1.2, width = 11.5,
     riverLength = 100, waterfallDrop = 30\<rparr>"

definition onePuff :: river where
  "onePuff = \<lparr>riverParams = riverParams0\<lparr>foamAmount := 1\<rparr>,
     rocks = [\<lparr>rockX = 0, rockZ = 0.056, radius = 0.5\<rparr>],
     water = None,
     foamSystem = Some \<lparr>positions = [0, 0, 0], lives = [0.5], offsets = [0]\<rparr>,
     randomCalls = 0\<rparr>"

definition onePuffMesh :: river where
  "onePuffMesh = onePuff\<lparr>water := Some [Vector3 0 0.056 0]\<rparr>"

text \<open>
  A stand-in for three.js in the examples: a quaternion is a yaw angle, \<open>slerp\<close>
  interpolates the angle, \<open>applyQuaternion\<close> turns a vector about the Y axis.
\<close>

definition testEngine :: "real three" where
  "testEngine =
     \<lparr>atan2 = (\<lambda>a b. if b > 0 then arctan (a / b)
                      else if b < 0 then (if a \<ge> 0 then arctan (a / b) + pi else arctan (a / b) - pi)
                      else if a > 0 then pi / 2 else if a < 0 then - pi / 2 else 0),
      setFromEuler = (\<lambda>yaw. yaw),
      slerp = (\<lambda>q target t. q + (target - q) * t),
      applyQuaternion = (\<lambda>v yaw. Vector3 (vx v * cos yaw + vz v * sin yaw) (vy v)
                                       (vz v * cos yaw - vx v * sin yaw))\<rparr>"

text \<open>
  A terrain of two tiers for downward rays: height \<open>0\<close> where \<open>z < 0.25\<close> and height
  \<open>h\<close> beyond; a ray that starts below the surface misses it. \<open>underBeam c\<close> adds a
  ceiling at height \<open>c\<close> over flat ground.
\<close>

definition tiers :: "real \<Rightarrow> terrain" where
  "tiers h origin direction =
     (if direction = downVector then
        (let g = (if vz origin < 0.25 then 0 else h)
         in if g \<le> vy origin then Some \<lparr>distance = vy origin - g, point = origin\<lparr>vy := g\<rparr>\<rparr>
            else None)
      else None)"

definition underBeam :: "real \<Rightarrow> terrain" where
  "underBeam c origin direction =
     (if direction = Vector3 0 1 0 \<and> vy origin \<le> c
      then Some \<lparr>distance = c - vy origin, point = origin\<lparr>vy := c\<rparr>\<rparr>
      else tiers 0 origin direction)"

text \<open>
  The player standing at height \<open>y\<close> over the origin, and the globals as they are at
  start-up with that player, all clips loaded and the idle clip active.
\<close>

definition standing :: "real \<Rightarrow> real player" where
  "standing y = \<lparr>position = Vector3 0 y 0, quaternion = 0\<rparr>"

definition spawn :: "real \<Rightarrow> real world" where
  "spawn y =
     \<lparr>player = Some (standing y),
      terrain = Some (tiers 1),
      actions = (\<lambda>n. True),
      activeAction = Some Idle,
      verticalVelocity = 0,
      isGrounded = True,
      lastGroundHeight = 0,
      cameraPosition = Vector3 0 0.5 1.5,
      dirLightPosition = Vector3 0 0 0,
      dirLightTarget = Vector3 0 0 0,
      river = onePuff,
      probes = []\<rparr>"

definition loadedExcept :: "actionName \<Rightarrow> actionName \<Rightarrow> bool" where
  "loadedExcept m n = (n \<noteq> m)"

text \<open>
  An input with the pointer locked and the camera looking along \<open>+Z\<close>, for the given
  key flags and frame time.
\<close>

definition noKeys :: keys where
  "noKeys = \<lparr>keyW = False, keyA = False, keyS = False, keyD = False, keyShift = False,
             keySpace = False\<rparr>"

definition pressing :: "keys \<Rightarrow> real \<Rightarrow> input" where
  "pressing k dt =
     \<lparr>keys = k, joystickX = 0, joystickY = 0, isLocked = True, gameActive = False,
      isMobile = False, delta = dt, now = 0, cameraDirection = Vector3 0 0 1,
      sun = Vector3 0 1 0\<rparr>"

section \<open>The wave field and the foam\<close>

lemma seedPosition_length:
  "seedPosition random rp rs i (ps, n) = (ps', n') \<Longrightarrow> length ps' = length ps"
  by (auto simp: seedPosition_def Let_def split: if_splits)

lemma seedPosition_other:
  "seedPosition random rp rs i (ps, n) = (ps', n') \<Longrightarrow> k \<noteq> i * 3 \<Longrightarrow> k \<noteq> i * 3 + 2 \<Longrightarrow>
   ps' ! k = ps ! k"
  by (auto simp: seedPosition_def Let_def split: if_splits)

lemma respawn_length:
  "respawn random rp rs playerPos i (ps, n) = (ps', n') \<Longrightarrow> length ps' = length ps"
  by (auto simp: respawn_def Let_def split: if_splits option.splits dest: seedPosition_length)

lemma respawn_other:
  "respawn random rp rs playerPos i (ps, n) = (ps', n') \<Longrightarrow> k \<noteq> i * 3 \<Longrightarrow> k \<noteq> i * 3 + 2 \<Longrightarrow>
   ps' ! k = ps ! k"
  by (auto simp: respawn_def Let_def split: if_splits option.splits dest: seedPosition_other)

lemma foamStep_lives:
  "lives (fst (foamStep random rp rs playerPos time dirX dirY i (f, n)))
   = (lives f)[i := decay rp (lives f ! i)]"
proof (cases "i < length (lives f)")
  case True
  then show ?thesis
    by (simp add: foamStep_def decay_def Let_def split_beta)
next
  case False
  then show ?thesis
    by (simp add: foamStep_def decay_def Let_def split_beta list_update_beyond)
qed

lemma foamStep_offsets:
  "offsets (fst (foamStep random rp rs playerPos time dirX dirY i (f, n))) = offsets f"
  by (simp add: foamStep_def Let_def split_beta)

lemma foamStep_positions_length:
  "length (positions (fst (foamStep random rp rs playerPos time dirX dirY i (f, n))))
   = length (positions f)"
  by (cases "respawn random rp rs playerPos i (positions f, n)")
     (auto simp: foamStep_def Let_def split_beta dest: respawn_length)

lemma foamStep_positions_other:
  "k \<noteq> i * 3 \<Longrightarrow> k \<noteq> i * 3 + 1 \<Longrightarrow> k \<noteq> i * 3 + 2 \<Longrightarrow>
   positions (fst (foamStep random rp rs playerPos time dirX dirY i (f, n))) ! k = positions f ! k"
  by (cases "respawn random rp rs playerPos i (positions f, n)")
     (auto simp: foamStep_def Let_def split_beta dest: respawn_other)

lemma foamStep_height_lock:
  assumes "i * 3 + 1 < length (positions f)"
      and "foamStep random rp rs playerPos time dirX dirY i (f, n) = (f', n')"
  shows "positions f' ! (i * 3 + 1)
         = getWaveHeight rp (positions f' ! (i * 3)) (positions f' ! (i * 3 + 2)) time dirX dirY + 0.05"
proof (cases "respawn random rp rs playerPos i (positions f, n)")
  case (Pair ps m)
  then have "length ps = length (positions f)" by (rule respawn_length)
  with assms Pair show ?thesis
    by (auto simp: foamStep_def Let_def split_beta)
qed

lemma rockPush_sum: "rockPush rs x y h = h + (\<Sum>r\<leftarrow>rs. rockBump r x y)"
  unfolding rockPush_def
  by (induction rs arbitrary: h) (simp_all add: rockBump_def Let_def)

lemma fold_foamStep_lives:
  "lives (fst (fold (foamStep random rp rs playerPos time dirX dirY) [0..<m] (f, n)))
   = map (decay rp) (take m (lives f)) @ drop m (lives f)"
proof (induction m)
  case 0
  then show ?case by simp
next
  case (Suc m)
  obtain f' n' where r: "fold (foamStep random rp rs playerPos time dirX dirY) [0..<m] (f, n) = (f', n')"
    by (cases "fold (foamStep random rp rs playerPos time dirX dirY) [0..<m] (f, n)")
  with Suc have l: "lives f' = map (decay rp) (take m (lives f)) @ drop m (lives f)" by simp
  have "lives (fst (foamStep random rp rs playerPos time dirX dirY m (f', n')))
        = map (decay rp) (take (Suc m) (lives f)) @ drop (Suc m) (lives f)"
  proof (cases "m < length (lives f)")
    case True
    then have "lives f' ! m = lives f ! m"
      by (simp add: l nth_append)
    moreover have "(map (decay rp) (take m (lives f)) @ drop m (lives f))[m := v]
         = map (decay rp) (take m (lives f)) @ v # drop (Suc m) (lives f)" for v
      using True by (simp add: list_update_append Cons_nth_drop_Suc [symmetric])
    ultimately show ?thesis
      using True by (simp add: foamStep_lives l take_Suc_conv_app_nth)
  next
    case False
    then show ?thesis
      by (simp add: foamStep_lives l list_update_beyond)
  qed
  with r show ?case by simp
qed

lemma fold_foamStep_positions_length:
  "length (positions (fst (fold (foamStep random rp rs playerPos time dirX dirY) [0..<m] (f, n))))
   = length (positions f)"
proof (induction m)
  case 0
  then show ?case by simp
next
  case (Suc m)
  then show ?case
    by (cases "fold (foamStep random rp rs playerPos time dirX dirY) [0..<m] (f, n)")
       (simp add: foamStep_positions_length)
qed

lemma fold_foamStep_height_lock:
  assumes "i < m" and "i * 3 + 1 < length (positions f)"
  shows "positions (fst (fold (foamStep random rp rs playerPos time dirX dirY) [0..<m] (f, n))) ! (i * 3 + 1)
     = getWaveHeight rp
         (positions (fst (fold (foamStep random rp rs playerPos time dirX dirY) [0..<m] (f, n))) ! (i * 3))
         (positions (fst (fold (foamStep random rp rs playerPos time dirX dirY) [0..<m] (f, n))) ! (i * 3 + 2))
         time dirX dirY + 0.05"
  using assms(1)
proof (induction m)
  case 0
  then show ?case by simp
next
  case (Suc m)
  obtain f' n' where r: "fold (foamStep random rp rs playerPos time dirX dirY) [0..<m] (f, n) = (f', n')"
    by (cases "fold (foamStep random rp rs playerPos time dirX dirY) [0..<m] (f, n)")
  obtain f'' n'' where s: "foamStep random rp rs playerPos time dirX dirY m (f', n') = (f'', n'')"
    by (cases "foamStep random rp rs playerPos time dirX dirY m (f', n')")
  have len: "length (positions f') = length (positions f)"
    using fold_foamStep_positions_length [of random rp rs playerPos time dirX dirY m f n] r by simp
  show ?case
  proof (cases "i = m")
    case True
    with assms(2) len have "m * 3 + 1 < length (positions f')" by simp
    from foamStep_height_lock [OF this s] True r s show ?thesis by simp
  next
    case False
    with Suc.prems have "i < m" by simp
    with Suc.IH r have ih: "positions f' ! (i * 3 + 1)
      = getWaveHeight rp (positions f' ! (i * 3)) (positions f' ! (i * 3 + 2)) time dirX dirY + 0.05"
      by simp
    have o: "positions f'' ! k = positions f' ! k"
      if "k \<noteq> m * 3" "k \<noteq> m * 3 + 1" "k \<noteq> m * 3 + 2" for k
      using foamStep_positions_other [OF that, of random rp rs playerPos time dirX dirY f' n'] s by simp
    have "positions f'' ! (i * 3) = positions f' ! (i * 3)"
         "positions f'' ! (i * 3 + 1) = positions f' ! (i * 3 + 1)"
         "positions f'' ! (i * 3 + 2) = positions f' ! (i * 3 + 2)"
      using \<open>i < m\<close> by (auto intro!: o; presburger)+
    with ih r s show ?thesis by simp
  qed
qed

lemma random_index:
  assumes "0 \<le> u" and "u < 1" and "0 < length rs"
  shows "nat \<lfloor>u * real (length rs)\<rfloor> < length rs"
proof -
  have "u * real (length rs) < real (length rs)"
    using assms by simp
  then have "\<lfloor>u * real (length rs)\<rfloor> < int (length rs)"
    by (simp add: floor_less_iff)
  moreover have "0 \<le> \<lfloor>u * real (length rs)\<rfloor>"
    using assms by simp
  ultimately show ?thesis by (simp add: nat_less_iff)
qed

lemma random_angle:
  assumes "0 \<le> u" and "u < 1"
  shows "0 \<le> u * pi * 2 \<and> u * pi * 2 < 2 * pi"
  using assms by simp

lemma seedPosition_fresh:
  assumes v: "validRandom random" and l: "i * 3 + 2 < length ps"
      and s: "seedPosition random rp rs i (ps, n) = (ps', n')"
  shows "freshPosition rp rs playerPos (ps' ! (i * 3)) (ps' ! (i * 3 + 2))"
proof (cases "random n < 0.6 \<and> length rs > 0")
  case True
  let ?k = "nat \<lfloor>random (n + 1) * real (length rs)\<rfloor>"
  let ?r = "radius (rs ! ?k) + random (n + 2) * 0.5"
  let ?a = "random (n + 3) * pi * 2"
  from v have b: "0 \<le> random m \<and> random m < 1" for m
    by (simp add: validRandom_def)
  from True b [of "n + 1"] have "?k < length rs" by (simp add: random_index)
  then have m: "rs ! ?k \<in> set rs" by simp
  from True s l have x: "ps' ! (i * 3) = rockX (rs ! ?k) + cos ?a * ?r"
    and z: "ps' ! (i * 3 + 2) = rockZ (rs ! ?k) + sin ?a * ?r"
    by (auto simp: seedPosition_def Let_def)
  have r: "radius (rs ! ?k) \<le> ?r \<and> ?r < radius (rs ! ?k) + 0.5"
    using b [of "n + 2"] by simp
  from m r random_angle [of "random (n + 3)"] b [of "n + 3"] x z
  have "\<exists>rock r a. rock \<in> set rs \<and> radius rock \<le> r \<and> r < radius rock + 0.5
          \<and> 0 \<le> a \<and> a < 2 * pi
          \<and> ps' ! (i * 3) = rockX rock + cos a * r \<and> ps' ! (i * 3 + 2) = rockZ rock + sin a * r"
    by blast
  then show ?thesis by (simp add: freshPosition_def)
next
  case False
  let ?side = "if random (n + 1) > 0.5 then 1 else - 1 :: real"
  from v have b: "0 \<le> random m \<and> random m < 1" for m
    by (simp add: validRandom_def)
  from False s l
  have x: "ps' ! (i * 3) = (width rp * 0.5 - 0.2) * ?side + random (n + 3) * 0.5 * (- ?side)"
    and z: "ps' ! (i * 3 + 2) = random (n + 2) * riverLength rp - riverLength rp * 0.5"
    by (auto simp: seedPosition_def Let_def)
  have "?side = 1 \<or> ?side = - 1" by simp
  with x z b [of "n + 3"] b [of "n + 2"]
  have "\<exists>side u v. (side = 1 \<or> side = - 1) \<and> 0 \<le> u \<and> u < 1 \<and> 0 \<le> v \<and> v < 1
          \<and> ps' ! (i * 3) = (width rp * 0.5 - 0.2) * side + u * 0.5 * (- side)
          \<and> ps' ! (i * 3 + 2) = v * riverLength rp - riverLength rp * 0.5"
    by blast
  then show ?thesis by (simp add: freshPosition_def)
qed

lemma respawn_fresh:
  assumes v: "validRandom random" and l: "i * 3 + 2 < length ps"
      and s: "respawn random rp rs playerPos i (ps, n) = (ps', n')"
  shows "freshPosition rp rs playerPos (ps' ! (i * 3)) (ps' ! (i * 3 + 2))"
proof (cases "\<exists>p. playerPos = Some p
          \<and> \<bar>vx p - waterX rp\<bar> < width rp * 0.5 \<and> \<bar>vz p - waterZ rp\<bar> < riverLength rp * 0.5
          \<and> \<bar>vy p - waterHeight rp\<bar> < 2.5 \<and> random n < 0.08")
  case True
  then obtain p where p: "playerPos = Some p"
    "\<bar>vx p - waterX rp\<bar> < width rp * 0.5" "\<bar>vz p - waterZ rp\<bar> < riverLength rp * 0.5"
    "\<bar>vy p - waterHeight rp\<bar> < 2.5" "random n < 0.08" by blast
  let ?r = "0.3 + random (n + 1) * 0.5"
  let ?a = "random (n + 2) * pi * 2"
  from v have b: "0 \<le> random m \<and> random m < 1" for m
    by (simp add: validRandom_def)
  from p s l have x: "ps' ! (i * 3) = (vx p - waterX rp) + cos ?a * ?r"
    and z: "ps' ! (i * 3 + 2) = (vz p - waterZ rp) + sin ?a * ?r"
    by (auto simp: respawn_def Let_def)
  have r: "0.3 \<le> ?r \<and> ?r < 0.8" using b [of "n + 1"] by simp
  from p r random_angle [of "random (n + 2)"] b [of "n + 2"] x z
  have "\<exists>p r a. playerPos = Some p
          \<and> \<bar>vx p - waterX rp\<bar> < width rp * 0.5 \<and> \<bar>vz p - waterZ rp\<bar> < riverLength rp * 0.5
          \<and> \<bar>vy p - waterHeight rp\<bar> < 2.5
          \<and> 0.3 \<le> r \<and> r < 0.8 \<and> 0 \<le> a \<and> a < 2 * pi
          \<and> ps' ! (i * 3) = (vx p - waterX rp) + cos a * r
          \<and> ps' ! (i * 3 + 2) = (vz p - waterZ rp) + sin a * r"
    by blast
  then show ?thesis by (simp add: freshPosition_def)
next
  case False
  then have "\<exists>m. respawn random rp rs playerPos i (ps, n) = seedPosition random rp rs i (ps, m)"
    by (cases playerPos) (auto simp: respawn_def Let_def)
  then obtain m where "seedPosition random rp rs i (ps, m) = (ps', n')"
    using s by auto
  from seedPosition_fresh [OF v l this] show ?thesis .
qed

lemma foamStep_fresh:
  assumes v: "validRandom random" and i: "i < length (lives f)"
      and d: "lives f ! i - 0.01 * speed rp \<le> 0"
      and l: "i * 3 + 2 < length (positions f)"
      and s: "foamStep random rp rs playerPos time dirX dirY i (f, n) = (f', n')"
  shows "freshPosition rp rs playerPos (positions f' ! (i * 3)) (positions f' ! (i * 3 + 2))"
proof (cases "respawn random rp rs playerPos i (positions f, n)")
  case (Pair ps m)
  from respawn_fresh [OF v l Pair]
  have "freshPosition rp rs playerPos (ps ! (i * 3)) (ps ! (i * 3 + 2))" .
  moreover from s i d Pair have "positions f' = ps[i * 3 + 1 := getWaveHeight rp (ps ! (i * 3))
      (ps ! (i * 3 + 2)) time dirX dirY + 0.05]"
    by (auto simp: foamStep_def Let_def)
  ultimately show ?thesis by simp
qed

lemma fold_foamStep_fresh:
  assumes v: "validRandom random" and i: "i < m" "i < length (lives f)"
      and d: "lives f ! i - 0.01 * speed rp \<le> 0"
      and l: "i * 3 + 2 < length (positions f)"
  shows "freshPosition rp rs playerPos
           (positions (fst (fold (foamStep random rp rs playerPos time dirX dirY) [0..<m] (f, n))) ! (i * 3))
           (positions (fst (fold (foamStep random rp rs playerPos time dirX dirY) [0..<m] (f, n))) ! (i * 3 + 2))"
  using i(1)
proof (induction m)
  case 0
  then show ?case by simp
next
  case (Suc m)
  obtain f' n' where r: "fold (foamStep random rp rs playerPos time dirX dirY) [0..<m] (f, n) = (f', n')"
    by (cases "fold (foamStep random rp rs playerPos time dirX dirY) [0..<m] (f, n)")
  obtain f'' n'' where s: "foamStep random rp rs playerPos time dirX dirY m (f', n') = (f'', n'')"
    by (cases "foamStep random rp rs playerPos time dirX dirY m (f', n')")
  have len: "length (positions f') = length (positions f)"
    using fold_foamStep_positions_length [of random rp rs playerPos time dirX dirY m f n] r by simp
  have lv: "lives f' = map (decay rp) (take m (lives f)) @ drop m (lives f)"
    using fold_foamStep_lives [of random rp rs playerPos time dirX dirY m f n] r by simp
  show ?case
  proof (cases "i = m")
    case True
    with i(2) have "lives f' ! m = lives f ! m" "m < length (lives f')"
      by (simp_all add: lv nth_append)
    with d l len True foamStep_fresh [OF v _ _ _ s] r s show ?thesis by simp
  next
    case False
    with Suc.prems have "i < m" by simp
    with Suc.IH r have ih: "freshPosition rp rs playerPos (positions f' ! (i * 3))
        (positions f' ! (i * 3 + 2))" by simp
    have o: "positions f'' ! k = positions f' ! k"
      if "k \<noteq> m * 3" "k \<noteq> m * 3 + 1" "k \<noteq> m * 3 + 2" for k
      using foamStep_positions_other [OF that, of random rp rs playerPos time dirX dirY f' n'] s by simp
    have "positions f'' ! (i * 3) = positions f' ! (i * 3)"
         "positions f'' ! (i * 3 + 2) = positions f' ! (i * 3 + 2)"
      using \<open>i < m\<close> by (auto intro!: o; presburger)+
    with ih r s show ?thesis by simp
  qed
qed

lemma createParticle_lives:
  "createParticle random rp rs i (f, n) = (f', n') \<Longrightarrow>
   (\<exists>k. lives f' = (lives f)[i := random k]) \<and> length (positions f') = length (positions f)"
  by (cases "seedPosition random rp rs i (positions f, n)")
     (auto simp: createParticle_def Let_def dest: seedPosition_length)

lemma fold_createParticle_lives:
  assumes "validRandom random"
      and "\<forall>l\<in>set (lives f). 0 \<le> l \<and> l \<le> 1"
  shows "length (lives (fst (fold (createParticle random rp rs) [0..<m] (f, n)))) = length (lives f)
       \<and> length (positions (fst (fold (createParticle random rp rs) [0..<m] (f, n))))
         = length (positions f)
       \<and> (\<forall>l\<in>set (lives (fst (fold (createParticle random rp rs) [0..<m] (f, n)))). 0 \<le> l \<and> l \<le> 1)"
proof (induction m)
  case 0
  from assms(2) show ?case by simp
next
  case (Suc m)
  obtain f' n' where r: "fold (createParticle random rp rs) [0..<m] (f, n) = (f', n')"
    by (cases "fold (createParticle random rp rs) [0..<m] (f, n)")
  obtain f'' n'' where s: "createParticle random rp rs m (f', n') = (f'', n'')"
    by (cases "createParticle random rp rs m (f', n')")
  from createParticle_lives [OF s] obtain k where k: "lives f'' = (lives f')[m := random k]"
    and pl: "length (positions f'') = length (positions f')" by blast
  from assms(1) have v: "0 \<le> random k \<and> random k \<le> 1"
    by (simp add: validRandom_def less_imp_le)
  from Suc r have ih: "length (lives f') = length (lives f)"
    "length (positions f') = length (positions f)" "\<forall>l\<in>set (lives f'). 0 \<le> l \<and> l \<le> 1"
    by simp_all
  have "set (lives f'') \<subseteq> insert (random k) (set (lives f'))"
    unfolding k by (rule set_update_subset_insert)
  with ih v have "\<forall>l\<in>set (lives f''). 0 \<le> l \<and> l \<le> 1" by blast
  with r s k pl ih show ?case by simp
qed

lemma createFoamSystem_livesWithin:
  assumes "validRandom random"
  shows "livesWithin (createFoamSystem random g)"
proof -
  let ?e = "\<lparr>positions = replicate (foamAmount (riverParams g) * 3) 0,
             lives = replicate (foamAmount (riverParams g)) 0,
             offsets = replicate (foamAmount (riverParams g)) 0\<rparr>"
  have "\<forall>l\<in>set (lives ?e). 0 \<le> l \<and> l \<le> 1" by simp
  show ?thesis
    using fold_createParticle_lives [OF assms \<open>\<forall>l\<in>set (lives ?e). 0 \<le> l \<and> l \<le> 1\<close>,
            of "riverParams g" "rocks g" "foamAmount (riverParams g)" "randomCalls g"]
    by (simp add: livesWithin_def createFoamSystem_def Let_def split_beta)
qed

lemma decay_range: "0 \<le> speed rp \<Longrightarrow> l \<le> 1 \<Longrightarrow> 0 < decay rp l \<and> decay rp l \<le> 1"
  by (simp add: decay_def)

lemma updateWater_foam:
  assumes "foamSystem g = Some f"
  shows "foamSystem (updateWater random time playerPos g)
         = Some (fst (fold (foamStep random (riverParams g) (rocks g) playerPos time
                        (sin (degToRad (flowAngle (riverParams g))))
                        (cos (degToRad (flowAngle (riverParams g)))))
                      [0..<foamAmount (riverParams g)] (f, randomCalls g)))
     \<and> riverParams (updateWater random time playerPos g) = riverParams g
     \<and> rocks (updateWater random time playerPos g) = rocks g"
  using assms
  by (simp add: updateWater_def updateFoam_def Let_def split_beta split: option.splits)

lemma updateWater_livesWithin:
  assumes "livesWithin g" and "0 \<le> speed (riverParams g)"
  shows "livesWithin (updateWater random time playerPos g)"
proof -
  from assms(1) obtain f where f: "foamSystem g = Some f"
    "length (lives f) = foamAmount (riverParams g)"
    "length (positions f) = foamAmount (riverParams g) * 3"
    "\<forall>l\<in>set (lives f). 0 \<le> l \<and> l \<le> 1"
    by (auto simp: livesWithin_def split: option.splits)
  let ?f' = "fst (fold (foamStep random (riverParams g) (rocks g) playerPos time
                        (sin (degToRad (flowAngle (riverParams g))))
                        (cos (degToRad (flowAngle (riverParams g)))))
                      [0..<foamAmount (riverParams g)] (f, randomCalls g))"
  note u = updateWater_foam [OF f(1), of random time playerPos]
  have lv: "lives ?f' = map (decay (riverParams g)) (lives f)"
    using f(2) by (simp add: fold_foamStep_lives)
  have pl: "length (positions ?f') = foamAmount (riverParams g) * 3"
    using f(3) by (simp add: fold_foamStep_positions_length)
  from f(4) assms(2) have "\<forall>l\<in>set (lives ?f'). 0 \<le> l \<and> l \<le> 1"
    using decay_range [of "riverParams g"] by (auto simp: lv less_imp_le)
  with u lv pl f(2) show ?thesis by (simp add: livesWithin_def)
qed

lemma foamRun_livesWithin:
  assumes "validRandom random" and "foamRun random g"
  shows "livesWithin g"
  using assms(2)
proof (induction rule: foamRun.induct)
  case (created g)
  from assms(1) show ?case by (rule createFoamSystem_livesWithin)
next
  case (configured g rp rs w m)
  then show ?case by (simp add: livesWithin_def split: option.splits)
next
  case (updated g time)
  then show ?case by (simp add: updateWater_livesWithin)
qed

text \<open>
  Claim C10. In every run of the foam system in which the flow speed is not negative,
  each pass of the foam loop leaves every particle's life in the interval \<open>(0, 1]\<close>:
  the new life is the old one minus \<open>0.01 * speed\<close>, or exactly \<open>1\<close> when that
  difference is not positive; and a particle whose life is reset in the pass ends the
  pass at a freshly drawn respawn position, around the player, around a rock or along
  an edge.
\<close>

theorem foam_life_invariant:
  assumes "validRandom random" and "foamRun random g" and "0 \<le> speed (riverParams g)"
  shows "\<exists>f f'. foamSystem g = Some f \<and> foamSystem (updateWater random time playerPos g) = Some f'
     \<and> lives f' = map (\<lambda>l. if l - 0.01 * speed (riverParams g) \<le> 0 then 1.0
                           else l - 0.01 * speed (riverParams g)) (lives f)
     \<and> (\<forall>l\<in>set (lives f'). 0 < l \<and> l \<le> 1)
     \<and> (\<forall>i<foamAmount (riverParams g). lives f ! i - 0.01 * speed (riverParams g) \<le> 0 \<longrightarrow>
           lives f' ! i = 1
           \<and> freshPosition (riverParams g) (rocks g) playerPos
               (positions f' ! (i * 3)) (positions f' ! (i * 3 + 2)))"
proof -
  from foamRun_livesWithin [OF assms(1,2)] obtain f where f: "foamSystem g = Some f"
    "length (lives f) = foamAmount (riverParams g)"
    "length (positions f) = foamAmount (riverParams g) * 3"
    "\<forall>l\<in>set (lives f). 0 \<le> l \<and> l \<le> 1"
    by (auto simp: livesWithin_def split: option.splits)
  let ?step = "foamStep random (riverParams g) (rocks g) playerPos time
                 (sin (degToRad (flowAngle (riverParams g))))
                 (cos (degToRad (flowAngle (riverParams g))))"
  let ?f' = "fst (fold ?step [0..<foamAmount (riverParams g)] (f, randomCalls g))"
  from updateWater_foam [OF f(1), of random time playerPos]
  have u: "foamSystem (updateWater random time playerPos g) = Some ?f'" by simp
  have lv: "lives ?f' = map (decay (riverParams g)) (lives f)"
    using f(2) by (simp add: fold_foamStep_lives)
  have r: "\<forall>l\<in>set (lives ?f'). 0 < l \<and> l \<le> 1"
    using f(4) decay_range [OF assms(3)] by (auto simp: lv)
  have e: "decay (riverParams g) = (\<lambda>l. if l - 0.01 * speed (riverParams g) \<le> 0 then 1.0
                           else l - 0.01 * speed (riverParams g))"
    by (rule ext) (simp add: decay_def)
  have p: "lives ?f' ! i = 1
           \<and> freshPosition (riverParams g) (rocks g) playerPos
               (positions ?f' ! (i * 3)) (positions ?f' ! (i * 3 + 2))"
    if i: "i < foamAmount (riverParams g)"
      and d: "lives f ! i - 0.01 * speed (riverParams g) \<le> 0" for i
  proof -
    from i f(2) have il: "i < length (lives f)" by simp
    from i f(3) have ip: "i * 3 + 2 < length (positions f)" by simp
    from il d have "lives ?f' ! i = 1" by (simp add: lv decay_def)
    moreover from fold_foamStep_fresh [OF assms(1) i il d ip]
    have "freshPosition (riverParams g) (rocks g) playerPos
               (positions ?f' ! (i * 3)) (positions ?f' ! (i * 3 + 2))" .
    ultimately show ?thesis by simp
  qed
  from f(1) u lv r p show ?thesis unfolding e by blast
qed

lemma validRandom_halves: "validRandom halves"
  by (simp add: validRandom_def halves_def)

lemma validRandom_zeros: "validRandom zeros"
  by (simp add: validRandom_def zeros_def)

theorem foam_life_invariant_witness:
  "validRandom zeros \<and> foamRun zeros (createFoamSystem zeros onePuff)
   \<and> 0 \<le> speed (riverParams (createFoamSystem zeros onePuff))
   \<and> lives (the (foamSystem (createFoamSystem zeros onePuff))) = [0]
   \<and> lives (the (foamSystem (updateWater zeros 2 None (createFoamSystem zeros onePuff)))) = [1]
   \<and> freshPosition (riverParams onePuff) (rocks onePuff) None
       (positions (the (foamSystem (updateWater zeros 2 None (createFoamSystem zeros onePuff)))) ! 0)
       (positions (the (foamSystem (updateWater zeros 2 None (createFoamSystem zeros onePuff)))) ! 2)"
proof -
  let ?g = "createFoamSystem zeros onePuff"
  have g: "foamSystem ?g = Some \<lparr>positions = [0.5, 0.05, 0.056], lives = [0], offsets = [0]\<rparr>"
    "riverParams ?g = riverParams onePuff" "rocks ?g = rocks onePuff"
    "foamAmount (riverParams onePuff) = 1" "speed (riverParams onePuff) = 0.7"
    by (simp_all add: createFoamSystem_def createParticle_def seedPosition_def onePuff_def
          riverParams0_def zeros_def Let_def numeral_3_eq_3)
  have s: "0 \<le> speed (riverParams ?g)" by (simp add: g)
  have r: "foamRun zeros ?g" by (rule foamRun.created)
  from foam_life_invariant [OF validRandom_zeros r s, of 2 None]
  obtain f' where f': "foamSystem (updateWater zeros 2 None ?g) = Some f'"
    "lives f' = [1]"
    "freshPosition (riverParams onePuff) (rocks onePuff) None (positions f' ! 0) (positions f' ! 2)"
    by (auto simp: g numeral_2_eq_2)
  with validRandom_zeros r s g(1) show ?thesis by simp
qed

text \<open>
  Claim C7, as stated, fails: with a rock under a foam particle, the particle's Y after
  the update is not the rock-perturbed vertex height at its position plus \<open>0.05\<close>.
\<close>

theorem foam_height_counterexample:
  "positions (the (foamSystem (updateWater halves 0 None onePuff))) ! 1
   \<noteq> vertexHeight (riverParams onePuff) (rocks onePuff) 0
        (sin (degToRad (flowAngle (riverParams onePuff))))
        (cos (degToRad (flowAngle (riverParams onePuff))))
        (positions (the (foamSystem (updateWater halves 0 None onePuff))) ! 0)
        (positions (the (foamSystem (updateWater halves 0 None onePuff))) ! 2) + 0.05"
  by (simp add: updateWater_def updateFoam_def foamStep_def vertexHeight_def rockPush_def
        onePuff_def riverParams0_def degToRad_def Let_def)

text \<open>
  Claim C7, amended. The height of a water-mesh vertex is \<open>getWaveHeight\<close> plus, for
  every rock nearer than \<open>2.5\<close> times its radius, the bump
  \<open>(1 - dist / (2.5 * radius)) * 0.6\<close>; the Y of every foam particle after the update is
  the plain \<open>getWaveHeight\<close> at the particle's X and Z plus \<open>0.05\<close>, without the rock
  bump.
\<close>

theorem mesh_bumped_foam_unbumped:
  assumes "rp = riverParams g"
      and "dirX = sin (degToRad (flowAngle rp))"
      and "dirY = cos (degToRad (flowAngle rp))"
  shows "(\<forall>vs. water g = Some vs \<longrightarrow>
           water (updateWater random time playerPos g)
           = Some (map (\<lambda>v. v\<lparr>vz := getWaveHeight rp (vx v) (vy v) time dirX dirY
                                     + (\<Sum>r\<leftarrow>rocks g. rockBump r (vx v) (vy v))\<rparr>) vs))
       \<and> (\<forall>f. foamSystem g = Some f \<longrightarrow>
           (\<exists>f'. foamSystem (updateWater random time playerPos g) = Some f'
              \<and> (\<forall>i<foamAmount rp. i * 3 + 1 < length (positions f) \<longrightarrow>
                    positions f' ! (i * 3 + 1)
                    = getWaveHeight rp (positions f' ! (i * 3)) (positions f' ! (i * 3 + 2))
                        time dirX dirY + 0.05)))"
proof (intro conjI allI impI)
  fix vs assume "water g = Some vs"
  then show "water (updateWater random time playerPos g)
           = Some (map (\<lambda>v. v\<lparr>vz := getWaveHeight rp (vx v) (vy v) time dirX dirY
                                     + (\<Sum>r\<leftarrow>rocks g. rockBump r (vx v) (vy v))\<rparr>) vs)"
    using assms
    by (simp add: updateWater_def updateMesh_def vertexHeight_def rockPush_sum Let_def split_beta
             split: option.splits)
next
  fix f assume f: "foamSystem g = Some f"
  let ?r = "fold (foamStep random rp (rocks g) playerPos time dirX dirY)
              [0..<foamAmount rp] (f, randomCalls g)"
  have u: "foamSystem (updateWater random time playerPos g) = Some (fst ?r)"
    using f assms
    by (simp add: updateWater_def updateFoam_def Let_def split_beta split: option.splits)
  have "\<forall>i<foamAmount rp. i * 3 + 1 < length (positions f) \<longrightarrow>
          positions (fst ?r) ! (i * 3 + 1)
          = getWaveHeight rp (positions (fst ?r) ! (i * 3)) (positions (fst ?r) ! (i * 3 + 2))
              time dirX dirY + 0.05"
    by (intro allI impI) (rule fold_foamStep_height_lock)
  with u show "\<exists>f'. foamSystem (updateWater random time playerPos g) = Some f'
              \<and> (\<forall>i<foamAmount rp. i * 3 + 1 < length (positions f) \<longrightarrow>
                    positions f' ! (i * 3 + 1)
                    = getWaveHeight rp (positions f' ! (i * 3)) (positions f' ! (i * 3 + 2))
                        time dirX dirY + 0.05)"
    by blast
qed

theorem mesh_bumped_foam_unbumped_witness:
  "water (updateWater halves 0 None onePuffMesh)
     = Some [Vector3 0 0.056 (getWaveHeight (riverParams onePuffMesh) 0 0.056 0 0 1 + 0.6)]
   \<and> positions (the (foamSystem (updateWater halves 0 None onePuffMesh))) ! 1
     = getWaveHeight (riverParams onePuffMesh)
         (positions (the (foamSystem (updateWater halves 0 None onePuffMesh))) ! 0)
         (positions (the (foamSystem (updateWater halves 0 None onePuffMesh))) ! 2) 0 0 1 + 0.05"
proof -
  have x: "0 = sin (degToRad (flowAngle (riverParams onePuffMesh)))"
    and y: "1 = cos (degToRad (flowAngle (riverParams onePuffMesh)))"
    by (simp_all add: onePuffMesh_def onePuff_def riverParams0_def degToRad_def)
  note t = mesh_bumped_foam_unbumped [OF refl x y, of halves 0 None]
  have w: "water onePuffMesh = Some [Vector3 0 0.056 0]"
    and f: "foamSystem onePuffMesh = Some \<lparr>positions = [0, 0, 0], lives = [0.5], offsets = [0]\<rparr>"
    and n: "foamAmount (riverParams onePuffMesh) = 1"
    and r: "rocks onePuffMesh = [\<lparr>rockX = 0, rockZ = 0.056, radius = 0.5\<rparr>]"
    by (simp_all add: onePuffMesh_def onePuff_def)
  from t w r have "water (updateWater halves 0 None onePuffMesh)
     = Some [Vector3 0 0.056 (getWaveHeight (riverParams onePuffMesh) 0 0.056 0 0 1 + 0.6)]"
    by (simp add: Vector3_def rockBump_def)
  moreover from t f n have "positions (the (foamSystem (updateWater halves 0 None onePuffMesh))) ! 1
     = getWaveHeight (riverParams onePuffMesh)
         (positions (the (foamSystem (updateWater halves 0 None onePuffMesh))) ! 0)
         (positions (the (foamSystem (updateWater halves 0 None onePuffMesh))) ! 2) 0 0 1 + 0.05"
    by (auto simp: numeral_2_eq_2)
  ultimately show ?thesis by simp
qed


section \<open>Gravity\<close>

lemma gravity_steps:
  "velocityOf ((gravity dt ^^ n) (p, w)) = verticalVelocity w - 20 * dt * real n
   \<and> heightOf ((gravity dt ^^ n) (p, w))
     = vy (position p) + real n * verticalVelocity w * dt - 20 * dt * dt * (real n * (real n + 1) / 2)"
proof (induction n)
  case 0
  then show ?case by (simp add: velocityOf_def heightOf_def)
next
  case (Suc n)
  obtain p' w' where s: "(gravity dt ^^ n) (p, w) = (p', w')"
    by (cases "(gravity dt ^^ n) (p, w)")
  with Suc have v: "verticalVelocity w' = verticalVelocity w - 20 * dt * real n"
    and h: "vy (position p') = vy (position p) + real n * verticalVelocity w * dt
              - 20 * dt * dt * (real n * (real n + 1) / 2)"
    by (simp_all add: velocityOf_def heightOf_def)
  have step: "(gravity dt ^^ Suc n) (p, w) = gravity dt (p', w')"
    by (simp add: s)
  show ?case
    unfolding step
    by (simp add: gravity_def velocityOf_def heightOf_def addY_def Let_def v h algebra_simps)
qed

text \<open>
  Claim C4, as stated, fails: from rest, sixty gravity steps of \<open>1/60\<close> s lower the
  player by \<open>61/6\<close>, one step of \<open>1\<close> s lowers it by \<open>20\<close>.
\<close>

theorem gravity_counterexample:
  "heightOf ((gravity (1 / 60) ^^ 60) (standing 0.1, spawn 0.1)) - 0.1 = - 61 / 6
   \<and> heightOf (gravity 1 (standing 0.1, spawn 0.1)) - 0.1 = - 20"
proof -
  from gravity_steps [where dt = "1 / 60" and n = 60 and p = "standing 0.1" and w = "spawn 0.1"]
  have "heightOf ((gravity (1 / 60) ^^ 60) (standing 0.1, spawn 0.1)) - 0.1 = - 61 / 6"
    by (simp add: standing_def spawn_def Vector3_def)
  moreover have "heightOf (gravity 1 (standing 0.1, spawn 0.1)) - 0.1 = - 20"
    by (simp add: gravity_def heightOf_def addY_def standing_def spawn_def Vector3_def Let_def)
  ultimately show ?thesis by simp
qed

text \<open>
  Claim C4, amended. For every initial state, sixty gravity steps of \<open>1/60\<close> s and one
  step of \<open>1\<close> s end with the same vertical velocity, the initial one minus \<open>20\<close>;
  the net vertical displacement is the initial velocity minus \<open>61/6\<close> after the sixty
  steps and the initial velocity minus \<open>20\<close> after the single step, so the two differ by
  \<open>59/6\<close> whatever the initial velocity.
\<close>

theorem gravity_sixty_steps_versus_one:
  "velocityOf ((gravity (1 / 60) ^^ 60) (p, w)) = verticalVelocity w - 20
   \<and> velocityOf (gravity 1 (p, w)) = verticalVelocity w - 20
   \<and> heightOf ((gravity (1 / 60) ^^ 60) (p, w)) - vy (position p) = verticalVelocity w - 61 / 6
   \<and> heightOf (gravity 1 (p, w)) - vy (position p) = verticalVelocity w - 20"
proof -
  have "velocityOf (gravity 1 (p, w)) = verticalVelocity w - 20"
       "heightOf (gravity 1 (p, w)) - vy (position p) = verticalVelocity w - 20"
    by (simp_all add: gravity_def velocityOf_def heightOf_def addY_def Let_def)
  moreover from gravity_steps [where dt = "1 / 60" and n = 60 and p = p and w = w]
  have "velocityOf ((gravity (1 / 60) ^^ 60) (p, w)) = verticalVelocity w - 20"
       "heightOf ((gravity (1 / 60) ^^ 60) (p, w)) - vy (position p) = verticalVelocity w - 61 / 6"
    by simp_all
  ultimately show ?thesis by simp
qed


section \<open>Evaluation of the examples\<close>

lemmas fixture_defs = testEngine_def tiers_def underBeam_def standing_def spawn_def noKeys_def
  pressing_def loadedExcept_def onePuff_def riverParams0_def Vector3_def downVector_def

lemmas step_defs = locomotion_def beforeResolution_def postMoveProbes_def controlApplication_def groundResolution_def
  clampCamera_def emergencyEscape_def validGroundLogic_def revertMove_def shouldRevert_def
  ceilingCheck_def followCamera_def crossfade_def applyMovement_def checkDist_def wallOrigins_def
  flowSpeed_def targetActionName_def actionOf_def baseSpeed_def gravity_def jumpInput_def
  applyRotation_def camAngle_def inputAngle_def isRunning_def isMoving_def controlsActive_def
  intersectObject_def addY_def normalize_def multiplyScalar_def lengthOf_def maxStepHeight_def
  jumpForce_def rayStartHeight_def addScaledVector_def dot_def degToRad_def


section \<open>The grounded flag and the vertical velocity\<close>

lemma wallCheck_probes_only:
  "wallCheck t d c os w = (b, w') \<Longrightarrow> \<exists>ps. w' = w\<lparr>probes := ps\<rparr>"
proof (induction os arbitrary: w)
  case Nil
  then have "w' = w\<lparr>probes := probes w\<rparr>" by simp
  then show ?case ..
next
  case (Cons a os)
  let ?w = "w\<lparr>probes := probes w @ [(a, d)]\<rparr>"
  show ?case
  proof (cases "\<exists>x. t a d = Some x \<and> distance x < c")
    case True
    with Cons.prems have "w' = ?w"
      by (auto simp: intersectObject_def)
    then show ?thesis ..
  next
    case False
    with Cons.prems have "wallCheck t d c os ?w = (b, w')"
      by (auto simp: intersectObject_def split: option.splits if_splits)
    from Cons.IH [OF this] obtain ps where "w' = ?w\<lparr>probes := ps\<rparr>" ..
    then have "w' = w\<lparr>probes := ps\<rparr>" by simp
    then show ?thesis ..
  qed
qed

lemma applyMovement_probes_only:
  "\<exists>p' ps. applyMovement eng rv i t (p, w) = (p', w\<lparr>probes := ps\<rparr>)"
proof (cases "isMoving rv i")
  case False
  then have "applyMovement eng rv i t (p, w) = (p, w\<lparr>probes := probes w\<rparr>)"
    by (simp add: applyMovement_def)
  then show ?thesis by blast
next
  case True
  let ?d = "applyQuaternion eng (Vector3 0 0 1) (quaternion p)"
  obtain b w' where c: "wallCheck t ?d (checkDist rv) (wallOrigins eng rv p) w = (b, w')"
    by (cases "wallCheck t ?d (checkDist rv) (wallOrigins eng rv p) w")
  from wallCheck_probes_only [OF c] obtain ps where "w' = w\<lparr>probes := ps\<rparr>" ..
  with True c show ?thesis
    by (cases b) (auto simp add: applyMovement_def Let_def)
qed

lemma jumpInput_rest:
  "groundedAtRest w \<Longrightarrow> groundedAtRest (globalsAfter (jumpInput rv i w))"
  by (simp add: jumpInput_def groundedAtRest_def globalsAfter_def Let_def split: option.splits)

lemma gravity_rest:
  "0 \<le> dt \<Longrightarrow> groundedAtRest w \<Longrightarrow> groundedAtRest (snd (gravity dt (p, w)))"
  by (auto simp add: gravity_def groundedAtRest_def Let_def)

lemma applyMovement_rest:
  assumes "groundedAtRest w"
  shows "groundedAtRest (snd (applyMovement eng rv i t (p, w)))"
proof (cases "isMoving rv i")
  case False
  with assms show ?thesis by (simp add: applyMovement_def)
next
  case True
  let ?d = "applyQuaternion eng (Vector3 0 0 1) (quaternion p)"
  obtain b w' where c: "wallCheck t ?d (checkDist rv) (wallOrigins eng rv p) w = (b, w')"
    by (cases "wallCheck t ?d (checkDist rv) (wallOrigins eng rv p) w")
  from wallCheck_probes_only [OF c] obtain ps where "w' = w\<lparr>probes := ps\<rparr>" ..
  with assms have "groundedAtRest w'" by (simp add: groundedAtRest_def)
  with True c show ?thesis by (simp add: applyMovement_def Let_def)
qed

lemma crossfade_rest: "groundedAtRest w \<Longrightarrow> groundedAtRest (crossfade name w)"
  by (simp add: crossfade_def groundedAtRest_def Let_def)

lemma followCamera_rest: "groundedAtRest w \<Longrightarrow> groundedAtRest (snd (followCamera i (p, w)))"
  by (simp add: followCamera_def groundedAtRest_def Let_def)

lemma controlApplication_rest:
  assumes "groundedAtRest w" and "0 \<le> delta i"
  shows "case controlApplication eng rv i t (p, w) of
           Inl (e, (p', w')) \<Rightarrow> groundedAtRest w'
         | Inr (p', w') \<Rightarrow> groundedAtRest w'"
proof (cases "jumpInput rv i w")
  case (Inl a)
  with jumpInput_rest [OF assms(1), of rv i] show ?thesis
    by (cases a) (simp add: controlApplication_def globalsAfter_def Let_def)
next
  case (Inr w1)
  with jumpInput_rest [OF assms(1), of rv i] have 1: "groundedAtRest w1"
    by (simp add: globalsAfter_def)
  obtain p2 w2 where g: "gravity (delta i) (applyRotation eng rv i p, w1) = (p2, w2)"
    by (cases "gravity (delta i) (applyRotation eng rv i p, w1)")
  from gravity_rest [OF assms(2) 1, of "applyRotation eng rv i p"] g have 2: "groundedAtRest w2"
    by simp
  obtain p3 w3 where m: "applyMovement eng rv i t (p2, w2) = (p3, w3)"
    by (cases "applyMovement eng rv i t (p2, w2)")
  from applyMovement_rest [OF 2, of eng rv i t p2] m have 3: "groundedAtRest w3" by simp
  obtain p4 w4 where
    f: "followCamera i (p3, crossfade (targetActionName rv i w2) w3) = (p4, w4)"
    by (cases "followCamera i (p3, crossfade (targetActionName rv i w2) w3)")
  from followCamera_rest [OF crossfade_rest [OF 3], of i p3 "targetActionName rv i w2"] f
  have "groundedAtRest w4" by simp
  with Inr g m f show ?thesis
    by (simp add: controlApplication_def Let_def)
qed

lemma ceilingCheck_rest: "groundedAtRest w \<Longrightarrow> groundedAtRest (snd (ceilingCheck t (p, w)))"
  by (simp add: ceilingCheck_def intersectObject_def groundedAtRest_def Let_def
           split: option.splits)

lemma intersectObject_rest:
  "groundedAtRest w \<Longrightarrow> groundedAtRest (snd (intersectObject t origin d w))"
  by (simp add: intersectObject_def groundedAtRest_def)

lemma postMoveProbes_rest:
  "groundedAtRest w \<Longrightarrow> groundedAtRest (snd (fst (postMoveProbes rv t (p, w))))"
  using ceilingCheck_rest [OF intersectObject_rest, of w t p t "addY (position p) (rayStartHeight rv)" downVector]
  by (cases rv) (simp_all add: postMoveProbes_def Let_def split_beta intersectObject_rest)

lemma beforeResolution_rest:
  fixes w :: "'q world"
  assumes "groundedAtRest w" and "0 \<le> delta i"
  shows "case beforeResolution eng rv i t (p, w) of
           Inl (e, (p', w')) \<Rightarrow> groundedAtRest w'
         | Inr ((p', w'), r) \<Rightarrow> groundedAtRest w'"
proof -
  define w1 where "w1 = snd (intersectObject t (addY (position p) (rayStartHeight rv)) downVector
     (w\<lparr>dirLightPosition := addScaledVector (position p) (sun i) 20,
        dirLightTarget := position p\<rparr>))"
  define r where
    "r = (if controlsActive rv i then controlApplication eng rv i t (p, w1) else Inr (p, w1))"
  from assms(1) have 1: "groundedAtRest w1"
    by (simp add: w1_def intersectObject_def groundedAtRest_def)
  have 2: "case r of Inl (e, (p', w')) \<Rightarrow> groundedAtRest w' | Inr (p', w') \<Rightarrow> groundedAtRest w'"
    using controlApplication_rest [OF 1 assms(2), of eng rv t p] 1 by (simp add: r_def)
  have eq: "beforeResolution eng rv i t (p, w)
     = (case r of Inl e \<Rightarrow> Inl e
        | Inr f \<Rightarrow> Inr (fst (postMoveProbes rv t f), snd (postMoveProbes rv t f), position p,
            (case fst (intersectObject t (addY (position p) (rayStartHeight rv)) downVector
               (w\<lparr>dirLightPosition := addScaledVector (position p) (sun i) 20,
                  dirLightTarget := position p\<rparr>)) of None \<Rightarrow> vy (position p) | Some h \<Rightarrow> vy (point h))))"
    unfolding r_def w1_def
    by (simp add: beforeResolution_def Let_def split_beta cong: option.case_cong sum.case_cong)
  show ?thesis
  proof (cases r)
    case (Inl a)
    with 2 show ?thesis by (simp add: eq split_beta)
  next
    case (Inr b)
    obtain p2 w2 where b: "b = (p2, w2)" by (cases b)
    with 2 Inr have 3: "groundedAtRest w2" by simp
    from postMoveProbes_rest [OF 3, of rv t p2] Inr b show ?thesis
      by (simp add: eq split_beta)
  qed
qed

lemma groundResolution_rest:
  "groundedAtRest w \<Longrightarrow>
   groundedAtRest (snd (groundResolution rv t oldPosition oldGroundHeight intersects (p, w)))"
  by (cases rv)
     (auto simp add: groundResolution_def revertMove_def validGroundLogic_def emergencyEscape_def
        intersectObject_def groundedAtRest_def Let_def split_beta split: option.splits)

lemma locomotion_rest:
  assumes "groundedAtRest w" and "0 \<le> delta i"
  shows "groundedAtRest (globalsAfter (locomotion eng rv i w))"
proof (cases "player w")
  case None
  with assms(1) show ?thesis by (simp add: locomotion_def globalsAfter_def)
next
  case (Some p)
  show ?thesis
  proof (cases "terrain w")
    case None
    with Some assms(1) show ?thesis by (simp add: locomotion_def globalsAfter_def)
  next
    case t: (Some t)
    show ?thesis
    proof (cases "beforeResolution eng rv i t (p, w)")
      case (Inl a)
      with beforeResolution_rest [OF assms, of eng rv t p] Some t show ?thesis
        by (simp add: locomotion_def globalsAfter_def groundedAtRest_def split_beta)
    next
      case (Inr b)
      obtain p1 w1 ints op og where b: "b = ((p1, w1), ints, op, og)"
        by (cases b) auto
      with beforeResolution_rest [OF assms, of eng rv t p] Inr have "groundedAtRest w1" by simp
      from groundResolution_rest [OF this, of rv t op og ints p1]
      show ?thesis using Some t Inr b
        by (simp add: locomotion_def globalsAfter_def groundedAtRest_def clampCamera_def
              Let_def split_beta)
    qed
  qed
qed

lemma reachable_rest: "reachable eng rv w \<Longrightarrow> groundedAtRest w"
proof (induction rule: reachable.induct)
  case (start w)
  then show ?case by (simp add: groundedAtRest_def)
next
  case (event w w')
  then show ?case by (simp add: groundedAtRest_def)
next
  case (frame w i)
  then show ?case by (simp add: locomotion_rest)
qed

lemma reachable_spawn: "reachable eng rv (spawn y)"
  by (rule reachable.start) (simp_all add: spawn_def)


section \<open>The frame up to the ground resolution\<close>

lemma applyMovement_height:
  assumes "horizontalMoves eng" and "applyMovement eng rv i t (p, w) = (p', w')"
  shows "vy (position p') = vy (position p) \<and> isGrounded w' = isGrounded w"
proof (cases "isMoving rv i")
  case False
  with assms(2) show ?thesis by (simp add: applyMovement_def)
next
  case True
  let ?d = "applyQuaternion eng (Vector3 0 0 1) (quaternion p)"
  obtain b w1 where c: "wallCheck t ?d (checkDist rv) (wallOrigins eng rv p) w = (b, w1)"
    by (cases "wallCheck t ?d (checkDist rv) (wallOrigins eng rv p) w")
  from wallCheck_probes_only [OF c] obtain ps where w1: "w1 = w\<lparr>probes := ps\<rparr>" ..
  from assms(1) have "vy ?d = 0" by (simp add: horizontalMoves_def)
  with True c w1 assms(2) show ?thesis
    by (cases b) (auto simp add: applyMovement_def Let_def addScaledVector_def)
qed

lemma controlApplication_descent:
  assumes c: "controlApplication eng rv i t (p, w) = Inr (pc, wc)"
      and g: "isGrounded wc" and r: "groundedAtRest w" and d: "0 \<le> delta i"
      and h: "horizontalMoves eng"
  shows "vy (position pc) \<le> vy (position p) \<and> isGrounded w"
proof (cases "jumpInput rv i w")
  case (Inl a)
  with c show ?thesis by (cases a) (simp add: controlApplication_def Let_def)
next
  case (Inr w1)
  obtain p2 w2 where gr: "gravity (delta i) (applyRotation eng rv i p, w1) = (p2, w2)"
    by (cases "gravity (delta i) (applyRotation eng rv i p, w1)")
  obtain p3 w3 where m: "applyMovement eng rv i t (p2, w2) = (p3, w3)"
    by (cases "applyMovement eng rv i t (p2, w2)")
  from c Inr gr m have e: "followCamera i (p3, crossfade (targetActionName rv i w2) w3) = (pc, wc)"
    by (simp add: controlApplication_def Let_def)
  then have 1: "pc = p3" "isGrounded wc = isGrounded w3"
    by (auto simp: followCamera_def crossfade_def Let_def split: if_splits)
  from applyMovement_height [OF h m] have 2: "vy (position p3) = vy (position p2)"
    "isGrounded w3 = isGrounded w2" by simp_all
  from gr have 3: "isGrounded w2 = isGrounded w1"
    "vy (position p2) = vy (position p) + (verticalVelocity w1 - 20 * delta i) * delta i"
    by (auto simp: gravity_def Let_def addY_def applyRotation_def)
  from g 1 2 3 have g1: "isGrounded w1" by simp
  with Inr have j: "w1 = w"
    by (auto simp: jumpInput_def Let_def split: if_splits option.splits)
  with g1 r have "verticalVelocity w1 \<le> 0" by (simp add: groundedAtRest_def)
  with d have "(verticalVelocity w1 - 20 * delta i) * delta i \<le> 0"
    by (simp add: mult_le_0_iff)
  with 1 2 3 g1 j show ?thesis by simp
qed

lemma postMoveProbes_facts:
  assumes "postMoveProbes rv t (pc, wc) = ((p1, w1), ints)"
  shows "ints = t (addY (position pc) (rayStartHeight rv)) downVector
       \<and> vx (position p1) = vx (position pc) \<and> vz (position p1) = vz (position pc)
       \<and> vy (position p1) \<le> vy (position pc)
       \<and> isGrounded w1 = isGrounded wc"
  using assms
  by (cases rv)
     (auto simp: postMoveProbes_def ceilingCheck_def intersectObject_def Let_def
        split: option.splits if_splits)

lemma beforeResolution_parts:
  fixes w :: "'q world"
  assumes "beforeResolution eng rv i t (p, w) = Inr ((p1, w1), ints, oldPosition, oldGroundHeight)"
  shows "oldPosition = position p
       \<and> oldGroundHeight = (case t (addY (position p) (rayStartHeight rv)) downVector of
                              None \<Rightarrow> vy (position p) | Some h \<Rightarrow> vy (point h))
       \<and> (\<exists>pc wc w0. postMoveProbes rv t (pc, wc) = ((p1, w1), ints)
            \<and> isGrounded w0 = isGrounded w \<and> verticalVelocity w0 = verticalVelocity w
            \<and> (if controlsActive rv i then controlApplication eng rv i t (p, w0) = Inr (pc, wc)
               else (pc, wc) = (p, w0)))"
proof -
  define w0 where "w0 = snd (intersectObject t (addY (position p) (rayStartHeight rv)) downVector
     (w\<lparr>dirLightPosition := addScaledVector (position p) (sun i) 20,
        dirLightTarget := position p\<rparr>))"
  define r where
    "r = (if controlsActive rv i then controlApplication eng rv i t (p, w0) else Inr (p, w0))"
  have 0: "isGrounded w0 = isGrounded w" "verticalVelocity w0 = verticalVelocity w"
    by (simp_all add: w0_def intersectObject_def)
  have eq: "beforeResolution eng rv i t (p, w)
     = (case r of Inl e \<Rightarrow> Inl e
        | Inr f \<Rightarrow> Inr (fst (postMoveProbes rv t f), snd (postMoveProbes rv t f), position p,
            (case t (addY (position p) (rayStartHeight rv)) downVector
               of None \<Rightarrow> vy (position p) | Some h \<Rightarrow> vy (point h))))"
    unfolding r_def w0_def
    by (simp add: beforeResolution_def intersectObject_def Let_def split_beta
          cong: option.case_cong sum.case_cong)
  show ?thesis
  proof (cases r)
    case (Inl a)
    with assms show ?thesis by (simp add: eq)
  next
    case (Inr f)
    obtain pc wc where f: "f = (pc, wc)" by (cases f)
    from assms Inr f have 1: "postMoveProbes rv t (pc, wc) = ((p1, w1), ints)"
      "oldPosition = position p"
      "oldGroundHeight = (case t (addY (position p) (rayStartHeight rv)) downVector of
                              None \<Rightarrow> vy (position p) | Some h \<Rightarrow> vy (point h))"
      by (auto simp add: eq prod_eq_iff)
    from Inr f have 2: "if controlsActive rv i then controlApplication eng rv i t (p, w0) = Inr (pc, wc)
               else (pc, wc) = (p, w0)"
      by (simp add: r_def split: if_splits)
    from 0 1 2 show ?thesis by blast
  qed
qed

lemma resting_bound:
  fixes w :: "'q world"
  assumes b: "beforeResolution eng rv i t (p, w) = Inr ((p1, w1), Some h, oldPosition, oldGroundHeight)"
      and r: "groundedAtRest w" and d: "0 \<le> delta i"
      and hb: "hitsBelow t" and hm: "horizontalMoves eng"
      and g: "isGrounded w1" and s: "vy (position p) \<le> oldGroundHeight + 0.1"
  shows "vy (point h) - oldGroundHeight \<le> rayStartHeight rv + 0.1"
proof -
  from beforeResolution_parts [OF b] obtain pc wc w0 where
    m: "postMoveProbes rv t (pc, wc) = ((p1, w1), Some h)"
    and 0: "isGrounded w0 = isGrounded w" "verticalVelocity w0 = verticalVelocity w"
    and c: "if controlsActive rv i then controlApplication eng rv i t (p, w0) = Inr (pc, wc)
               else (pc, wc) = (p, w0)"
    by blast
  from postMoveProbes_facts [OF m] have
    1: "t (addY (position pc) (rayStartHeight rv)) downVector = Some h"
    and 2: "isGrounded wc = isGrounded w1" by simp_all
  from r 0 have r0: "groundedAtRest w0" by (simp add: groundedAtRest_def)
  have "vy (position pc) \<le> vy (position p)"
  proof (cases "controlsActive rv i")
    case True
    with c have "controlApplication eng rv i t (p, w0) = Inr (pc, wc)" by simp
    from controlApplication_descent [OF this _ r0 d hm] g 2 show ?thesis by simp
  next
    case False
    with c show ?thesis by simp
  qed
  moreover have "vy (point h) \<le> vy (position pc) + rayStartHeight rv"
  proof -
    from hb 1 have "vy (point h) \<le> vy (addY (position pc) (rayStartHeight rv))"
      unfolding hitsBelow_def by blast
    then show ?thesis by (simp add: addY_def)
  qed
  ultimately show ?thesis using s by simp
qed

lemma locomotion_parts:
  assumes "player w = Some p" and "terrain w = Some t"
      and "beforeResolution eng rv i t (p, w) = Inr ((p1, w1), ints, oldPosition, oldGroundHeight)"
      and "groundResolution rv t oldPosition oldGroundHeight ints (p1, w1) = (p2, w2)"
  shows "locomotion eng rv i w = Inr (clampCamera (w2\<lparr>player := Some p2\<rparr>))"
  using assms by (simp add: locomotion_def)


section \<open>The frame without player or terrain\<close>

text \<open>
  Claim C9. When the player handle or the terrain handle is missing, the controller
  returns the globals as they were and raises nothing: position, orientation, vertical
  velocity, grounded flag, last ground height and the list of probes are unchanged. The
  whole of \<open>animate\<close> then changes the river globals only.
\<close>

theorem missing_handles_skip:
  assumes "player w = None \<or> terrain w = None"
  shows "locomotion eng rv i w = Inr w
       \<and> animate random eng rv i w
         = Inr (w\<lparr>river := updateWater random (now i) (map_option position (player w)) (river w)\<rparr>)"
  using assms
  by (auto simp: locomotion_def animate_def Let_def split: option.splits)

theorem missing_handles_skip_witness:
  "(player ((spawn 0.1)\<lparr>player := None\<rparr>) = None \<or> terrain ((spawn 0.1)\<lparr>player := None\<rparr>) = None)
   \<and> locomotion testEngine Second (pressing (noKeys\<lparr>keyW := True, keySpace := True\<rparr>) (1 / 60))
         ((spawn 0.1)\<lparr>player := None\<rparr>)
       = Inr ((spawn 0.1)\<lparr>player := None\<rparr>)"
  using missing_handles_skip [of "(spawn 0.1)\<lparr>player := None\<rparr>" testEngine Second
      "pressing (noKeys\<lparr>keyW := True, keySpace := True\<rparr>) (1 / 60)" halves]
  by simp


section \<open>The jump\<close>

text \<open>
  Claim C2, as stated, fails. In a frame with the jump key down and the grounded flag
  set, the active animation stays the idle clip when the jump clip has not been loaded;
  and when the controls are not active the frame leaves the velocity at \<open>0\<close> and the
  flag set.
\<close>

theorem jump_trigger_counterexample:
  "keySpace (keys (pressing (noKeys\<lparr>keySpace := True\<rparr>) (1 / 60)))
   \<and> isGrounded ((spawn 0.1)\<lparr>actions := loadedExcept Jump\<rparr>)
   \<and> activeAction (globalsAfter (locomotion testEngine Second
        (pressing (noKeys\<lparr>keySpace := True\<rparr>) (1 / 60))
        ((spawn 0.1)\<lparr>actions := loadedExcept Jump\<rparr>))) = Some Idle
   \<and> isGrounded (spawn 0.1)
   \<and> verticalVelocity (globalsAfter (locomotion testEngine Second
        ((pressing (noKeys\<lparr>keySpace := True\<rparr>) (1 / 60))\<lparr>isLocked := False\<rparr>) (spawn 0.1))) = 0
   \<and> isGrounded (globalsAfter (locomotion testEngine Second
        ((pressing (noKeys\<lparr>keySpace := True\<rparr>) (1 / 60))\<lparr>isLocked := False\<rparr>) (spawn 0.1)))"
  by (simp add: step_defs fixture_defs globalsAfter_def Let_def)

text \<open>
  Claim C2, amended. When the jump block runs with the jump key down and the grounded
  flag set, it sets the vertical velocity to the jump force (\<open>8\<close> in the first revision,
  \<open>10\<close> in the second) and clears the flag; the active animation becomes the jump action
  when the jump clip has been loaded and some action is active, and is unchanged when
  the clip has not been loaded. The control block, which runs in the frames whose
  controls are active, then ends with velocity jump force minus \<open>20 * delta\<close>, the flag
  cleared and the jump action active. With the flag cleared the jump block changes
  nothing.
\<close>

theorem jump_trigger:
  fixes w :: "'q world"
  shows "(keySpace (keys i) \<and> isGrounded w \<longrightarrow>
            verticalVelocity (globalsAfter (jumpInput rv i w)) = jumpForce rv
            \<and> \<not> isGrounded (globalsAfter (jumpInput rv i w))
            \<and> (actions w Jump \<and> activeAction w \<noteq> None \<longrightarrow>
                 (\<exists>w'. jumpInput rv i w = Inr w' \<and> activeAction w' = Some Jump))
            \<and> (\<not> actions w Jump \<longrightarrow>
                 (\<exists>w'. jumpInput rv i w = Inr w' \<and> activeAction w' = activeAction w)))
       \<and> (keySpace (keys i) \<and> isGrounded w \<and> actions w Jump \<and> activeAction w \<noteq> None \<longrightarrow>
            (\<exists>p' w'. controlApplication eng rv i t (p, w) = Inr (p', w')
               \<and> verticalVelocity w' = jumpForce rv - 20 * delta i
               \<and> \<not> isGrounded w' \<and> activeAction w' = Some Jump))
       \<and> (\<not> isGrounded w \<longrightarrow> jumpInput rv i w = Inr w)
       \<and> jumpForce First = 8 \<and> jumpForce Second = 10"
proof -
  have a: "verticalVelocity (globalsAfter (jumpInput rv i w)) = jumpForce rv
            \<and> \<not> isGrounded (globalsAfter (jumpInput rv i w))
            \<and> (actions w Jump \<and> activeAction w \<noteq> None \<longrightarrow>
                 (\<exists>w'. jumpInput rv i w = Inr w' \<and> activeAction w' = Some Jump))
            \<and> (\<not> actions w Jump \<longrightarrow>
                 (\<exists>w'. jumpInput rv i w = Inr w' \<and> activeAction w' = activeAction w))"
    if "keySpace (keys i)" "isGrounded w"
    using that by (auto simp: jumpInput_def globalsAfter_def Let_def split: option.splits)
  have b: "\<exists>p' w'. controlApplication eng rv i t (p, w) = Inr (p', w')
               \<and> verticalVelocity w' = jumpForce rv - 20 * delta i
               \<and> \<not> isGrounded w' \<and> activeAction w' = Some Jump"
    if k: "keySpace (keys i)" "isGrounded w" "actions w Jump" "activeAction w \<noteq> None"
  proof -
    let ?w1 = "w\<lparr>verticalVelocity := jumpForce rv, isGrounded := False, activeAction := Some Jump\<rparr>"
    let ?p0 = "applyRotation eng rv i p"
    from k have j: "jumpInput rv i w = Inr ?w1"
      by (auto simp: jumpInput_def Let_def)
    obtain p2 w2 where g: "gravity (delta i) (?p0, ?w1) = (p2, w2)"
      by (cases "gravity (delta i) (?p0, ?w1)")
    then have w2: "w2 = ?w1\<lparr>verticalVelocity := jumpForce rv - 20 * delta i\<rparr>"
      by (auto simp: gravity_def Let_def)
    from k(3) have n: "targetActionName rv i w2 = Jump"
      by (simp add: w2 targetActionName_def actionOf_def Let_def)
    from applyMovement_probes_only [of eng rv i t p2 w2] obtain p3 ps where
      m: "applyMovement eng rv i t (p2, w2) = (p3, w2\<lparr>probes := ps\<rparr>)" by blast
    from k(3) have c: "crossfade Jump (w2\<lparr>probes := ps\<rparr>) = w2\<lparr>probes := ps\<rparr>"
      by (simp add: w2 crossfade_def actionOf_def Let_def)
    obtain p4 w4 where f: "followCamera i (p3, w2\<lparr>probes := ps\<rparr>) = (p4, w4)"
      by (cases "followCamera i (p3, w2\<lparr>probes := ps\<rparr>)")
    then have "verticalVelocity w4 = jumpForce rv - 20 * delta i \<and> \<not> isGrounded w4
               \<and> activeAction w4 = Some Jump"
      by (auto simp: followCamera_def Let_def w2)
    moreover have "controlApplication eng rv i t (p, w) = Inr (p4, w4)"
      by (simp add: controlApplication_def Let_def j g n m c f)
    ultimately show ?thesis by blast
  qed
  have c: "jumpInput rv i w = Inr w" if "\<not> isGrounded w"
    using that by (simp add: jumpInput_def)
  show ?thesis using a b c by (simp add: jumpForce_def)
qed

theorem jump_trigger_witness:
  "keySpace (keys (pressing (noKeys\<lparr>keySpace := True\<rparr>) (1 / 60)))
   \<and> isGrounded (spawn 0.1) \<and> actions (spawn 0.1) Jump \<and> activeAction (spawn 0.1) \<noteq> None
   \<and> jumpInput Second (pressing (noKeys\<lparr>keySpace := True\<rparr>) (1 / 60)) (spawn 0.1)
     = Inr ((spawn 0.1)\<lparr>verticalVelocity := 10, isGrounded := False, activeAction := Some Jump\<rparr>)
   \<and> (\<exists>p' w'. controlApplication testEngine Second (pressing (noKeys\<lparr>keySpace := True\<rparr>) (1 / 60))
                  (tiers 1) (standing 0.1, spawn 0.1) = Inr (p', w')
          \<and> verticalVelocity w' = 29 / 3 \<and> \<not> isGrounded w' \<and> activeAction w' = Some Jump)"
proof -
  let ?i = "pressing (noKeys\<lparr>keySpace := True\<rparr>) (1 / 60)"
  have k: "keySpace (keys ?i)" "isGrounded (spawn 0.1)" "actions (spawn 0.1) Jump"
    "activeAction (spawn 0.1) \<noteq> None"
    by (simp_all add: pressing_def noKeys_def spawn_def)
  have j: "jumpInput Second ?i (spawn 0.1)
     = Inr ((spawn 0.1)\<lparr>verticalVelocity := 10, isGrounded := False, activeAction := Some Jump\<rparr>)"
    by (simp add: jumpInput_def jumpForce_def pressing_def noKeys_def spawn_def Let_def)
  have v: "jumpForce Second - 20 * delta ?i = 29 / 3"
    by (simp add: jumpForce_def pressing_def)
  from jump_trigger [of ?i "spawn 0.1" Second testEngine "tiers 1" "standing 0.1"] k
  have "\<exists>p' w'. controlApplication testEngine Second ?i (tiers 1) (standing 0.1, spawn 0.1) = Inr (p', w')
          \<and> verticalVelocity w' = jumpForce Second - 20 * delta ?i
          \<and> \<not> isGrounded w' \<and> activeAction w' = Some Jump"
    by blast
  then have "\<exists>p' w'. controlApplication testEngine Second ?i (tiers 1) (standing 0.1, spawn 0.1) = Inr (p', w')
          \<and> verticalVelocity w' = 29 / 3 \<and> \<not> isGrounded w' \<and> activeAction w' = Some Jump"
    unfolding v .
  with k j show ?thesis by simp
qed


section \<open>The river current\<close>




section \<open>The ceiling probe\<close>







section \<open>The ground resolution\<close>

lemma shouldRevert_iff:
  "shouldRevert rv d g (p, w) =
     (d > maxStepHeight rv \<and> vy (position p) \<le> g
      \<and> (rv = Second \<longrightarrow> verticalVelocity w \<le> 0 \<and> isGrounded w))"
  by (cases rv) (auto simp: shouldRevert_def maxStepHeight_def Let_def)

lemma revertMove_facts:
  assumes "revertMove rv t oldPosition (p, w) = (p', w')"
  shows "vx (position p') = vx oldPosition \<and> vz (position p') = vz oldPosition
       \<and> probes w' = probes w @ [(reprobeOrigin rv oldPosition, downVector)]
       \<and> (vy (position p') = vy (position p)
          \<or> (\<exists>h2. t (reprobeOrigin rv oldPosition) downVector = Some h2
                \<and> vy (position p') = vy (point h2) + 0.1))"
  using assms
  by (cases rv)
     (auto simp: revertMove_def reprobeOrigin_def intersectObject_def Vector3_def Let_def
        split: option.splits if_splits)

lemma validGroundLogic_facts:
  assumes "validGroundLogic g (p, w) = (p', w')"
  shows "vx (position p') = vx (position p) \<and> vz (position p') = vz (position p)
       \<and> probes w' = probes w"
  using assms by (auto simp: validGroundLogic_def split: if_splits)

lemma emergencyEscape_facts:
  assumes "emergencyEscape g (p, w) = (p', w')"
  shows "vx (position p') = vx (position p) \<and> vz (position p') = vz (position p)
       \<and> probes w' = probes w
       \<and> (vy (position p') = vy (position p) \<or> vy (position p') = g + 0.1)"
  using assms by (auto simp: emergencyEscape_def split: if_splits)

lemma groundResolution_reverted:
  assumes r: "groundResolution rv t oldPosition oldGroundHeight (Some h) (p, w) = (p', w')"
      and s: "shouldRevert rv (vy (point h) - oldGroundHeight) (vy (point h)) (p, w)"
  shows "vx (position p') = vx oldPosition \<and> vz (position p') = vz oldPosition
       \<and> probes w' = probes w @ [(reprobeOrigin rv oldPosition, downVector)]
       \<and> (vy (position p') = vy (position p)
          \<or> (\<exists>h2. t (reprobeOrigin rv oldPosition) downVector = Some h2
                \<and> vy (position p') = vy (point h2) + 0.1)
          \<or> vy (position p') = vy (point h) + 0.1)"
proof -
  let ?g = "vy (point h)"
  let ?w = "w\<lparr>lastGroundHeight := ?g\<rparr>"
  from s have s': "shouldRevert rv (?g - oldGroundHeight) ?g (p, ?w)"
    by (simp add: shouldRevert_iff)
  obtain p1 w1 where m: "revertMove rv t oldPosition (p, ?w) = (p1, w1)"
    by (cases "revertMove rv t oldPosition (p, ?w)")
  with r s' have e: "emergencyEscape ?g (p1, w1) = (p', w')"
    by (simp add: groundResolution_def Let_def)
  from revertMove_facts [OF m] emergencyEscape_facts [OF e] show ?thesis
    by auto
qed

lemma groundResolution_kept:
  assumes r: "groundResolution rv t oldPosition oldGroundHeight (Some h) (p, w) = (p', w')"
      and s: "\<not> shouldRevert rv (vy (point h) - oldGroundHeight) (vy (point h)) (p, w)"
  shows "vx (position p') = vx (position p) \<and> vz (position p') = vz (position p)
       \<and> probes w' = probes w"
proof -
  let ?g = "vy (point h)"
  let ?w = "w\<lparr>lastGroundHeight := ?g\<rparr>"
  from s have s': "\<not> shouldRevert rv (?g - oldGroundHeight) ?g (p, ?w)"
    by (simp add: shouldRevert_iff)
  obtain p1 w1 where m: "validGroundLogic ?g (p, ?w) = (p1, w1)"
    by (cases "validGroundLogic ?g (p, ?w)")
  with r s' have e: "emergencyEscape ?g (p1, w1) = (p', w')"
    by (simp add: groundResolution_def Let_def)
  from validGroundLogic_facts [OF m] emergencyEscape_facts [OF e] show ?thesis
    by simp
qed

lemma hitsBelow_tiers: "hitsBelow (tiers h)"
  by (auto simp: hitsBelow_def tiers_def Let_def split: if_splits)

lemma horizontalMoves_testEngine: "horizontalMoves testEngine"
  by (simp add: horizontalMoves_def testEngine_def Vector3_def)

text \<open>
  Claim C1, as stated, fails. The terrain is a height field of two tiers, \<open>0\<close> and
  \<open>1\<close>, that answers downward rays. The player rests on the lower tier (Y \<open>0.1\<close>, the
  grounded flag set, no vertical velocity) and walks forward for a frame of \<open>0.1\<close>
  seconds, from ground height \<open>0\<close> to ground height \<open>1\<close>. The downward probe after
  the move starts below the top of the wall and misses, the ground resolution does not
  run, and the frame ends with the player at the new X and Z, the flag still set and no
  second ground probe cast. This holds in both revisions.
\<close>

theorem step_height_counterexample:
  "isGrounded (spawn 0.1) \<and> verticalVelocity (spawn 0.1) = 0
   \<and> player (spawn 0.1) = Some (standing 0.1) \<and> terrain (spawn 0.1) = Some (tiers 1)
   \<and> tiers 1 (Vector3 0 200 0) downVector = Some \<lparr>distance = 200, point = Vector3 0 0 0\<rparr>
   \<and> tiers 1 (Vector3 0 200 0.4) downVector = Some \<lparr>distance = 199, point = Vector3 0 1 0.4\<rparr>
   \<and> tiers 1 (Vector3 0 0.5 0.4) downVector = None
   \<and> map_option position (player (globalsAfter (locomotion testEngine Second
        (pressing (noKeys\<lparr>keyW := True\<rparr>) 0.1) (spawn 0.1)))) = Some (Vector3 0 (- 0.1) 0.4)
   \<and> isGrounded (globalsAfter (locomotion testEngine Second
        (pressing (noKeys\<lparr>keyW := True\<rparr>) 0.1) (spawn 0.1)))
   \<and> probes (globalsAfter (locomotion testEngine Second
        (pressing (noKeys\<lparr>keyW := True\<rparr>) 0.1) (spawn 0.1)))
     = [(Vector3 0 0.7 0, downVector), (Vector3 0 0.4 0, Vector3 0 0 1),
        (Vector3 0 0.9 0, Vector3 0 0 1), (Vector3 0 1.6 0, Vector3 0 0 1),
        (Vector3 0 0.5 0.4, downVector), (Vector3 0 0.1 0.4, Vector3 0 1 0)]
   \<and> map_option position (player (globalsAfter (locomotion testEngine First
        (pressing (noKeys\<lparr>keyW := True\<rparr>) 0.1) (spawn 0.1)))) = Some (Vector3 0 (- 0.1) 0.4)
   \<and> isGrounded (globalsAfter (locomotion testEngine First
        (pressing (noKeys\<lparr>keyW := True\<rparr>) 0.1) (spawn 0.1)))
   \<and> probes (globalsAfter (locomotion testEngine First
        (pressing (noKeys\<lparr>keyW := True\<rparr>) 0.1) (spawn 0.1)))
     = [(Vector3 0 0.9 0, downVector), (Vector3 0 0.7 0, Vector3 0 0 1),
        (Vector3 0.4 0.7 0, Vector3 0 0 1), (Vector3 (- 0.4) 0.7 0, Vector3 0 0 1),
        (Vector3 0 0.7 0.4, downVector)]"
  by (simp add: step_defs fixture_defs globalsAfter_def Let_def)

text \<open>
  Claim C1, amended. In a frame of a run whose downward probe after the move hits, if
  the height difference exceeds the step height (\<open>0.5\<close> in the first revision,
  \<open>0.6\<close> in the second), the feet are not above the new ground, the vertical velocity
  is not positive and the grounded flag is set, then X and Z are the pre-move ones, one
  more downward ray is cast at that X and Z, and Y is kept unless the landing at the
  probed ground or the emergency escape sets it. In no other case are X and Z reverted
  (the first revision does not ask for the velocity or the flag): a height difference of
  at most the step height, in particular \<open>0.2\<close>, is never reverted. A height difference of \<open>1.0\<close>
  is not observed by a player that rests on the old ground with the flag still set,
  when the terrain answers downward rays at or below their origin and the forward
  direction is horizontal: the probe starts \<open>0.8\<close> (first revision) or \<open>0.6\<close>
  (second) above feet that are at most \<open>0.1\<close> above the old ground, so the difference
  is at most \<open>0.9\<close> or \<open>0.7\<close>; within that range every difference above the step
  height is reverted.
\<close>

theorem step_height_revert:
  fixes w :: "'q world"
  assumes "reachable eng rv w" and "0 \<le> delta i"
      and "player w = Some p" and "terrain w = Some t"
      and "beforeResolution eng rv i t (p, w) = Inr ((p1, w1), Some h, oldPosition, oldGroundHeight)"
      and "g = vy (point h)" and "heightDiff = g - oldGroundHeight"
      and "groundResolution rv t oldPosition oldGroundHeight (Some h) (p1, w1) = (p', w')"
  shows "locomotion eng rv i w = Inr (clampCamera (w'\<lparr>player := Some p'\<rparr>))
       \<and> oldPosition = position p
       \<and> (heightDiff > maxStepHeight rv \<and> vy (position p1) \<le> g \<and> verticalVelocity w1 \<le> 0
            \<and> isGrounded w1 \<longrightarrow>
          vx (position p') = vx (position p) \<and> vz (position p') = vz (position p)
          \<and> probes w' = probes w1 @ [(reprobeOrigin rv (position p), downVector)]
          \<and> (vy (position p') = vy (position p1)
             \<or> (\<exists>h2. t (reprobeOrigin rv (position p)) downVector = Some h2
                   \<and> vy (position p') = vy (point h2) + 0.1)
             \<or> vy (position p') = g + 0.1))
       \<and> (\<not> (heightDiff > maxStepHeight rv \<and> vy (position p1) \<le> g
               \<and> (rv = Second \<longrightarrow> verticalVelocity w1 \<le> 0 \<and> isGrounded w1)) \<longrightarrow>
          vx (position p') = vx (position p1) \<and> vz (position p') = vz (position p1)
          \<and> probes w' = probes w1)
       \<and> (heightDiff \<le> maxStepHeight rv \<longrightarrow>
          vx (position p') = vx (position p1) \<and> vz (position p') = vz (position p1)
          \<and> probes w' = probes w1)
       \<and> (heightDiff = 0.2 \<longrightarrow>
          vx (position p') = vx (position p1) \<and> vz (position p') = vz (position p1)
          \<and> probes w' = probes w1)
       \<and> (hitsBelow t \<and> horizontalMoves eng \<and> isGrounded w1
            \<and> vy (position p) \<le> oldGroundHeight + 0.1 \<longrightarrow>
          heightDiff \<le> rayStartHeight rv + 0.1 \<and> heightDiff < 1
          \<and> (heightDiff > maxStepHeight rv \<longrightarrow>
               vx (position p') = vx (position p) \<and> vz (position p') = vz (position p)))
       \<and> maxStepHeight First = 0.5 \<and> maxStepHeight Second = 0.6
       \<and> rayStartHeight First = 0.8 \<and> rayStartHeight Second = 0.6"
proof -
  have m: "maxStepHeight rv \<le> 0.6" "0.2 \<le> maxStepHeight rv" "rayStartHeight rv \<le> 0.8"
    by (cases rv; simp add: maxStepHeight_def rayStartHeight_def)+
  from beforeResolution_parts [OF assms(5)] have op: "oldPosition = position p" by simp
  from reachable_rest [OF assms(1)] have rest: "groundedAtRest w" .
  from beforeResolution_rest [OF rest assms(2), of eng rv t p] assms(5)
  have rest1: "isGrounded w1 \<longrightarrow> verticalVelocity w1 \<le> 0"
    by (simp add: groundedAtRest_def)
  have a: "vx (position p') = vx (position p) \<and> vz (position p') = vz (position p)
          \<and> probes w' = probes w1 @ [(reprobeOrigin rv (position p), downVector)]
          \<and> (vy (position p') = vy (position p1)
             \<or> (\<exists>h2. t (reprobeOrigin rv (position p)) downVector = Some h2
                   \<and> vy (position p') = vy (point h2) + 0.1)
             \<or> vy (position p') = g + 0.1)"
    if "heightDiff > maxStepHeight rv" "vy (position p1) \<le> g" "verticalVelocity w1 \<le> 0" "isGrounded w1"
  proof -
    from that assms(6,7)
    have "shouldRevert rv (vy (point h) - oldGroundHeight) (vy (point h)) (p1, w1)"
      by (simp add: shouldRevert_iff)
    from groundResolution_reverted [OF assms(8) this] assms(6) op show ?thesis by simp
  qed
  have b0: "vx (position p') = vx (position p1) \<and> vz (position p') = vz (position p1)
          \<and> probes w' = probes w1"
    if "\<not> (heightDiff > maxStepHeight rv \<and> vy (position p1) \<le> g
               \<and> (rv = Second \<longrightarrow> verticalVelocity w1 \<le> 0 \<and> isGrounded w1))"
  proof -
    from that assms(6,7)
    have "\<not> shouldRevert rv (vy (point h) - oldGroundHeight) (vy (point h)) (p1, w1)"
      by (simp add: shouldRevert_iff)
    from groundResolution_kept [OF assms(8) this] show ?thesis .
  qed
  have b: "vx (position p') = vx (position p1) \<and> vz (position p') = vz (position p1)
          \<and> probes w' = probes w1"
    if "heightDiff \<le> maxStepHeight rv"
    using that b0 by simp
  have c: "heightDiff = 0.2 \<Longrightarrow> heightDiff \<le> maxStepHeight rv"
    using m by simp
  have d: "heightDiff \<le> rayStartHeight rv + 0.1 \<and> heightDiff < 1
          \<and> (heightDiff > maxStepHeight rv \<longrightarrow>
               vx (position p') = vx (position p) \<and> vz (position p') = vz (position p))"
    if "hitsBelow t" "horizontalMoves eng" "isGrounded w1" "vy (position p) \<le> oldGroundHeight + 0.1"
  proof -
    from resting_bound [OF assms(5) rest assms(2) that] assms(6,7)
    have 1: "heightDiff \<le> rayStartHeight rv + 0.1" by simp
    with m have 2: "heightDiff < 1" by simp
    from beforeResolution_parts [OF assms(5)] obtain pc wc w0 where
      pm: "postMoveProbes rv t (pc, wc) = ((p1, w1), Some h)"
      and 0: "isGrounded w0 = isGrounded w" "verticalVelocity w0 = verticalVelocity w"
      and ca: "if controlsActive rv i then controlApplication eng rv i t (p, w0) = Inr (pc, wc)
               else (pc, wc) = (p, w0)"
      by blast
    from rest 0 have r0: "groundedAtRest w0" by (simp add: groundedAtRest_def)
    from postMoveProbes_facts [OF pm] have f: "vy (position p1) \<le> vy (position pc)"
      "isGrounded w1 = isGrounded wc" by simp_all
    have "vy (position pc) \<le> vy (position p)"
    proof (cases "controlsActive rv i")
      case True
      with ca have "controlApplication eng rv i t (p, w0) = Inr (pc, wc)" by simp
      from controlApplication_descent [OF this _ r0 assms(2) that(2)] that(3) f show ?thesis by simp
    next
      case False
      with ca show ?thesis by simp
    qed
    with f that(4) have 3: "heightDiff > maxStepHeight rv \<Longrightarrow> vy (position p1) \<le> g"
      using m assms(7) by simp
    from a 3 rest1 that(3)
    have "heightDiff > maxStepHeight rv \<longrightarrow>
               vx (position p') = vx (position p) \<and> vz (position p') = vz (position p)"
      by blast
    with 1 2 show ?thesis by simp
  qed
  have v: "maxStepHeight First = 0.5 \<and> maxStepHeight Second = 0.6
       \<and> rayStartHeight First = 0.8 \<and> rayStartHeight Second = 0.6"
    by (simp add: maxStepHeight_def rayStartHeight_def)
  from b c have c': "heightDiff = 0.2 \<longrightarrow>
          vx (position p') = vx (position p1) \<and> vz (position p') = vz (position p1)
          \<and> probes w' = probes w1"
    by blast
  from locomotion_parts [OF assms(3,4,5,8)] op a b0 b c' d v show ?thesis
    by blast
qed

theorem step_height_revert_witness:
  "reachable testEngine Second ((spawn 0.1)\<lparr>terrain := Some (tiers 0.65)\<rparr>)
   \<and> 0 \<le> delta (pressing (noKeys\<lparr>keyW := True, keyShift := True\<rparr>) (1 / 40))
   \<and> hitsBelow (tiers 0.65) \<and> horizontalMoves testEngine
   \<and> beforeResolution testEngine Second (pressing (noKeys\<lparr>keyW := True, keyShift := True\<rparr>) (1 / 40))
        (tiers 0.65) (standing 0.1, (spawn 0.1)\<lparr>terrain := Some (tiers 0.65)\<rparr>)
     = Inr ((\<lparr>position = Vector3 0 (7 / 80) (1 / 4), quaternion = 0\<rparr>,
             (spawn 0.1)\<lparr>terrain := Some (tiers 0.65), activeAction := Some Run,
                verticalVelocity := - 1 / 2,
                cameraPosition := Vector3 0 (127 / 80) (- 13 / 4),
                dirLightPosition := Vector3 0 (201 / 10) 0,
                dirLightTarget := Vector3 0 (1 / 10) 0,
                probes := [(Vector3 0 (7 / 10) 0, downVector), (Vector3 0 (47 / 80) 0, Vector3 0 0 1),
                           (Vector3 0 (87 / 80) 0, Vector3 0 0 1), (Vector3 0 (143 / 80) 0, Vector3 0 0 1),
                           (Vector3 0 (11 / 16) (1 / 4), downVector),
                           (Vector3 0 (23 / 80) (1 / 4), Vector3 0 1 0)]\<rparr>),
            Some \<lparr>distance = 3 / 80, point = Vector3 0 (13 / 20) (1 / 4)\<rparr>, Vector3 0 (1 / 10) 0, 0)
   \<and> map_option position (player (globalsAfter (locomotion testEngine Second
        (pressing (noKeys\<lparr>keyW := True, keyShift := True\<rparr>) (1 / 40))
        ((spawn 0.1)\<lparr>terrain := Some (tiers 0.65)\<rparr>)))) = Some (Vector3 0 0.1 0)
   \<and> last (probes (globalsAfter (locomotion testEngine Second
        (pressing (noKeys\<lparr>keyW := True, keyShift := True\<rparr>) (1 / 40))
        ((spawn 0.1)\<lparr>terrain := Some (tiers 0.65)\<rparr>)))) = (Vector3 0 200 0, downVector)
   \<and> (0.65 :: real) \<le> rayStartHeight Second + 0.1
   \<and> map_option position (player (globalsAfter (locomotion testEngine Second
        (pressing (noKeys\<lparr>keyW := True, keyShift := True\<rparr>) (1 / 40))
        ((spawn 0.1)\<lparr>terrain := Some (tiers 0.2)\<rparr>)))) = Some (Vector3 0 0.3 0.25)
   \<and> length (probes (globalsAfter (locomotion testEngine Second
        (pressing (noKeys\<lparr>keyW := True, keyShift := True\<rparr>) (1 / 40))
        ((spawn 0.1)\<lparr>terrain := Some (tiers 0.2)\<rparr>)))) = 6"
proof -
  let ?i = "pressing (noKeys\<lparr>keyW := True, keyShift := True\<rparr>) (1 / 40)"
  let ?p1 = "\<lparr>position = Vector3 0 (7 / 80) (1 / 4), quaternion = 0::real\<rparr>"
  let ?ps = "[(Vector3 0 (7 / 10) 0, downVector), (Vector3 0 (47 / 80) 0, Vector3 0 0 1),
              (Vector3 0 (87 / 80) 0, Vector3 0 0 1), (Vector3 0 (143 / 80) 0, Vector3 0 0 1),
              (Vector3 0 (11 / 16) (1 / 4), downVector),
              (Vector3 0 (23 / 80) (1 / 4), Vector3 0 1 0)]"
  let ?w1 = "\<lambda>t. (spawn 0.1)\<lparr>terrain := Some t, activeAction := Some Run,
                verticalVelocity := - 1 / 2,
                cameraPosition := Vector3 0 (127 / 80) (- 13 / 4),
                dirLightPosition := Vector3 0 (201 / 10) 0,
                dirLightTarget := Vector3 0 (1 / 10) 0,
                probes := ?ps\<rparr>"
  let ?t = "tiers 0.65"
  let ?w = "(spawn 0.1)\<lparr>terrain := Some ?t\<rparr>"
  let ?h = "\<lparr>distance = 3 / 80, point = Vector3 0 (13 / 20) (1 / 4)\<rparr>"
  let ?r = "groundResolution Second ?t (Vector3 0 (1 / 10) 0) 0 (Some ?h) (?p1, ?w1 ?t)"
  let ?t' = "tiers 0.2"
  let ?w' = "(spawn 0.1)\<lparr>terrain := Some ?t'\<rparr>"
  let ?h' = "\<lparr>distance = 39 / 80, point = Vector3 0 (1 / 5) (1 / 4)\<rparr>"
  let ?r' = "groundResolution Second ?t' (Vector3 0 (1 / 10) 0) 0 (Some ?h') (?p1, ?w1 ?t')"
  have r: "reachable testEngine Second ?w" and r': "reachable testEngine Second ?w'"
    by (rule reachable.start; simp add: spawn_def)+
  have d: "0 \<le> delta ?i" by (simp add: pressing_def)
  have p: "player ?w = Some (standing 0.1)" and t: "terrain ?w = Some ?t"
    and p': "player ?w' = Some (standing 0.1)" and t': "terrain ?w' = Some ?t'"
    by (simp_all add: spawn_def)
  have b: "beforeResolution testEngine Second ?i ?t (standing 0.1, ?w)
     = Inr ((?p1, ?w1 ?t), Some ?h, Vector3 0 (1 / 10) 0, 0)"
    by (simp add: step_defs fixture_defs Let_def)
  have b': "beforeResolution testEngine Second ?i ?t' (standing 0.1, ?w')
     = Inr ((?p1, ?w1 ?t'), Some ?h', Vector3 0 (1 / 10) 0, 0)"
    by (simp add: step_defs fixture_defs Let_def)
  have g: "13 / 20 = vy (point ?h)" and hd: "13 / 20 = 13 / 20 - (0::real)"
    and g': "0.2 = vy (point ?h')" and hd': "0.2 = 0.2 - (0::real)"
    by (simp_all add: Vector3_def)
  have e: "?r = (fst ?r, snd ?r)" and e': "?r' = (fst ?r', snd ?r')" by simp_all
  note a = step_height_revert [OF r d p t b g hd e]
  note a' = step_height_revert [OF r' d p' t' b' g' hd' e']
  from a have l: "locomotion testEngine Second ?i ?w
      = Inr (clampCamera ((snd ?r)\<lparr>player := Some (fst ?r)\<rparr>))"
    by (rule conjunct1)
  from a' have l': "locomotion testEngine Second ?i ?w'
      = Inr (clampCamera ((snd ?r')\<lparr>player := Some (fst ?r')\<rparr>))"
    by (rule conjunct1)
  have s: "13 / 20 > maxStepHeight Second \<and> vy (position ?p1) \<le> 13 / 20
           \<and> verticalVelocity (?w1 ?t) \<le> 0 \<and> isGrounded (?w1 ?t)"
    by (simp add: maxStepHeight_def spawn_def Vector3_def)
  with a have xz: "vx (position (fst ?r)) = 0 \<and> vz (position (fst ?r)) = 0
      \<and> probes (snd ?r) = ?ps @ [(reprobeOrigin Second (position (standing 0.1)), downVector)]"
    by (simp add: standing_def Vector3_def)
  have q: "hitsBelow ?t \<and> horizontalMoves testEngine \<and> isGrounded (?w1 ?t)
           \<and> vy (position (standing 0.1)) \<le> 0 + 0.1"
    by (simp add: hitsBelow_tiers horizontalMoves_testEngine spawn_def standing_def Vector3_def)
  with a have bd: "(13 / 20 :: real) \<le> rayStartHeight Second + 0.1" by blast
  from a' have xz': "vx (position (fst ?r')) = 0 \<and> vz (position (fst ?r')) = 1 / 4
      \<and> probes (snd ?r') = ?ps"
    by (simp add: maxStepHeight_def standing_def Vector3_def)
  have y: "vy (position (fst ?r)) = 0.1" "vy (position (fst ?r')) = 0.3"
    by (simp_all add: step_defs fixture_defs Let_def)
  from xz y have pos: "position (fst ?r) = Vector3 0 0.1 0"
    by (simp add: Vector3_def vec3.equality)
  from xz' y have pos': "position (fst ?r') = Vector3 0 0.3 0.25"
    by (simp add: Vector3_def vec3.equality)
  from xz have lp: "last (probes (snd ?r)) = (Vector3 0 200 0, downVector)"
    by (simp add: reprobeOrigin_def standing_def Vector3_def)
  from xz' have ln: "length (probes (snd ?r')) = 6" by simp
  from r d q b l l' pos pos' lp ln bd show ?thesis
    by (simp add: globalsAfter_def clampCamera_def Let_def)
qed

text \<open>
  Claim C3. In every frame of every run (frame times not negative), when the downward
  probe after the move hits and the revert condition fails, the ground resolution runs
  the landing branch: if the player's Y is at most the ground height plus \<open>0.1\<close> and
  the vertical velocity is at most \<open>0\<close>, Y becomes ground height plus \<open>0.1\<close>, the
  velocity \<open>0\<close> and the grounded flag true; in every other case the branch leaves the
  grounded flag false, and position and velocity as they were.
\<close>

theorem landing_snap:
  fixes w :: "'q world"
  assumes "reachable eng rv w" and "0 \<le> delta i"
      and "player w = Some p" and "terrain w = Some t"
      and "beforeResolution eng rv i t (p, w) = Inr ((p1, w1), Some h, oldPosition, oldGroundHeight)"
      and "g = vy (point h)"
      and "\<not> shouldRevert rv (g - oldGroundHeight) g (p1, w1)"
      and "validGroundLogic g (p1, w1\<lparr>lastGroundHeight := g\<rparr>) = (p2, w2)"
  shows "groundResolution rv t oldPosition oldGroundHeight (Some h) (p1, w1) = emergencyEscape g (p2, w2)
       \<and> (vy (position p1) \<le> g + 0.1 \<and> verticalVelocity w1 \<le> 0 \<longrightarrow>
            vy (position p2) = g + 0.1 \<and> verticalVelocity w2 = 0 \<and> isGrounded w2)
       \<and> (\<not> (vy (position p1) \<le> g + 0.1 \<and> verticalVelocity w1 \<le> 0) \<longrightarrow>
            \<not> isGrounded w2 \<and> p2 = p1 \<and> verticalVelocity w2 = verticalVelocity w1)"
proof -
  from reachable_rest [OF assms(1)] have "groundedAtRest w" .
  from beforeResolution_rest [OF this assms(2), of eng rv t p] assms(5)
  have rest: "isGrounded w1 \<longrightarrow> verticalVelocity w1 \<le> 0"
    by (simp add: groundedAtRest_def)
  from assms(7) have "\<not> shouldRevert rv (g - oldGroundHeight) g (p1, w1\<lparr>lastGroundHeight := g\<rparr>)"
    by (simp add: shouldRevert_iff)
  with assms(6,8)
  have "groundResolution rv t oldPosition oldGroundHeight (Some h) (p1, w1) = emergencyEscape g (p2, w2)"
    by (simp add: groundResolution_def Let_def)
  moreover from assms(8) rest
  have "(vy (position p1) \<le> g + 0.1 \<and> verticalVelocity w1 \<le> 0 \<longrightarrow>
            vy (position p2) = g + 0.1 \<and> verticalVelocity w2 = 0 \<and> isGrounded w2)
       \<and> (\<not> (vy (position p1) \<le> g + 0.1 \<and> verticalVelocity w1 \<le> 0) \<longrightarrow>
            \<not> isGrounded w2 \<and> p2 = p1 \<and> verticalVelocity w2 = verticalVelocity w1)"
    by (auto simp: validGroundLogic_def split: if_splits)
  ultimately show ?thesis by simp
qed

theorem landing_snap_witness:
  "reachable testEngine Second (spawn 0.1)
   \<and> 0 \<le> delta (pressing noKeys (1 / 60))
   \<and> beforeResolution testEngine Second (pressing noKeys (1 / 60)) (tiers 1) (standing 0.1, spawn 0.1)
     = Inr ((standing (17 / 180),
             (spawn 0.1)\<lparr>verticalVelocity := - 1 / 3,
                cameraPosition := Vector3 0 (287 / 180) (- 7 / 2),
                dirLightPosition := Vector3 0 (201 / 10) 0,
                dirLightTarget := Vector3 0 (1 / 10) 0,
                probes := [(Vector3 0 (7 / 10) 0, downVector), (Vector3 0 (25 / 36) 0, downVector),
                           (Vector3 0 (53 / 180) 0, Vector3 0 1 0)]\<rparr>),
            Some \<lparr>distance = 25 / 36, point = Vector3 0 0 0\<rparr>, Vector3 0 (1 / 10) 0, 0)
   \<and> position (fst (validGroundLogic 0 (standing (17 / 180),
             (spawn 0.1)\<lparr>verticalVelocity := - 1 / 3,
                cameraPosition := Vector3 0 (287 / 180) (- 7 / 2),
                dirLightPosition := Vector3 0 (201 / 10) 0,
                dirLightTarget := Vector3 0 (1 / 10) 0,
                probes := [(Vector3 0 (7 / 10) 0, downVector), (Vector3 0 (25 / 36) 0, downVector),
                           (Vector3 0 (53 / 180) 0, Vector3 0 1 0)],
                lastGroundHeight := 0\<rparr>))) = Vector3 0 0.1 0
   \<and> isGrounded (snd (validGroundLogic 0 (standing (17 / 180),
             (spawn 0.1)\<lparr>verticalVelocity := - 1 / 3,
                cameraPosition := Vector3 0 (287 / 180) (- 7 / 2),
                dirLightPosition := Vector3 0 (201 / 10) 0,
                dirLightTarget := Vector3 0 (1 / 10) 0,
                probes := [(Vector3 0 (7 / 10) 0, downVector), (Vector3 0 (25 / 36) 0, downVector),
                           (Vector3 0 (53 / 180) 0, Vector3 0 1 0)],
                lastGroundHeight := 0\<rparr>)))"
proof -
  let ?i = "pressing noKeys (1 / 60)"
  let ?w1 = "(spawn 0.1)\<lparr>verticalVelocity := - 1 / 3,
                cameraPosition := Vector3 0 (287 / 180) (- 7 / 2),
                dirLightPosition := Vector3 0 (201 / 10) 0,
                dirLightTarget := Vector3 0 (1 / 10) 0,
                probes := [(Vector3 0 (7 / 10) 0, downVector), (Vector3 0 (25 / 36) 0, downVector),
                           (Vector3 0 (53 / 180) 0, Vector3 0 1 0)]\<rparr>"
  let ?h = "\<lparr>distance = 25 / 36, point = Vector3 0 0 0\<rparr>"
  let ?v = "validGroundLogic 0 (standing (17 / 180), ?w1\<lparr>lastGroundHeight := 0\<rparr>)"
  have r: "reachable testEngine Second (spawn 0.1)" by (rule reachable_spawn)
  have d: "0 \<le> delta ?i" by (simp add: pressing_def)
  have p: "player (spawn 0.1) = Some (standing 0.1)"
    and t: "terrain (spawn 0.1) = Some (tiers 1)"
    by (simp_all add: spawn_def standing_def)
  have b: "beforeResolution testEngine Second ?i (tiers 1) (standing 0.1, spawn 0.1)
     = Inr ((standing (17 / 180), ?w1), Some ?h, Vector3 0 (1 / 10) 0, 0)"
    by (simp add: step_defs fixture_defs Let_def)
  have g: "0 = vy (point ?h)" by (simp add: Vector3_def)
  have s: "\<not> shouldRevert Second (0 - 0) 0 (standing (17 / 180), ?w1)"
    by (simp add: shouldRevert_def maxStepHeight_def)
  have v: "validGroundLogic 0 (standing (17 / 180), ?w1\<lparr>lastGroundHeight := 0\<rparr>) = (fst ?v, snd ?v)"
    by simp
  from landing_snap [OF r d p t b g s v]
  have "vy (position (fst ?v)) = 0.1 \<and> isGrounded (snd ?v)"
    by (simp add: standing_def Vector3_def)
  moreover have "vx (position (fst ?v)) = 0 \<and> vz (position (fst ?v)) = 0"
    by (simp add: validGroundLogic_def standing_def Vector3_def)
  ultimately have "position (fst ?v) = Vector3 0 0.1 0 \<and> isGrounded (snd ?v)"
    by (simp add: Vector3_def vec3.equality)
  with r d b show ?thesis by simp
qed


end
